theory Spec2Isabelle
  imports Complex_Main "HOL-Library.Sublist" "HOL-Library.AList"
begin

section \<open>Python values\<close>

text \<open>
  A Python \<^verbatim>\<open>str\<close> is a sequence of Unicode code points; iterating it yields
  one-character strings, and comparing two of those compares their code points. A string is
  therefore modelled as the list of its code points. ASCII literals of the source are written
  through \<open>ustr\<close>, other literals as the code points themselves.
\<close>

type_synonym pystr = "nat list"

definition ustr :: "string \<Rightarrow> pystr" where
  "ustr s = map of_char s"

text \<open>The separator \<^verbatim>\<open>"\n\n"\<close> of the f-strings and of the join.\<close>

definition blank_line :: pystr where
  "blank_line = [10, 10]"

text \<open>The builtin \<^verbatim>\<open>any\<close> over a generator: it stops at the first true element.\<close>

fun py_any :: "('a \<Rightarrow> bool) \<Rightarrow> 'a list \<Rightarrow> bool" where
  "py_any p [] = False"
| "py_any p (x # xs) = (if p x then True else py_any p xs)"

text \<open>\<^verbatim>\<open>sep.join(parts)\<close>.\<close>

fun join :: "pystr \<Rightarrow> pystr list \<Rightarrow> pystr" where
  "join sep [] = []"
| "join sep [x] = x"
| "join sep (x # y # ys) = x @ sep @ join sep (y # ys)"

text \<open>
  \<^verbatim>\<open>str.isspace\<close> on one character, and the number of items of \<^verbatim>\<open>s.split()\<close>: the
  number of maximal runs of characters that are not whitespace.
\<close>

definition py_isspace :: "nat \<Rightarrow> bool" where
  "py_isspace c \<longleftrightarrow>
     (9 \<le> c \<and> c \<le> 13) \<or> (28 \<le> c \<and> c \<le> 32) \<or> c = 133 \<or> c = 160 \<or> c = 5760 \<or>
     (8192 \<le> c \<and> c \<le> 8202) \<or> c = 8232 \<or> c = 8233 \<or> c = 8239 \<or> c = 8287 \<or> c = 12288"

fun count_words :: "bool \<Rightarrow> pystr \<Rightarrow> nat" where
  "count_words in_word [] = 0"
| "count_words in_word (c # cs) =
     (if py_isspace c then count_words False cs
      else if in_word then count_words True cs
      else Suc (count_words True cs))"

definition split_len :: "pystr \<Rightarrow> nat" where
  "split_len s = count_words False s"

section \<open>Hebrew helpers of \<^verbatim>\<open>vertex_ai_provider.py\<close> and \<^verbatim>\<open>dify_vertex_ai_integration.py\<close>\<close>

text \<open>
  The test of one character against the bounds U+0590 and U+05FF: U+0590 is 1424 and
  U+05FF is 1535.
\<close>

definition hebrew_char :: "nat \<Rightarrow> bool" where
  "hebrew_char c \<longleftrightarrow> 1424 \<le> c \<and> c \<le> 1535"

text \<open>\<^verbatim>\<open>VertexAIProvider._contains_hebrew\<close>.\<close>

definition contains_hebrew :: "pystr \<Rightarrow> bool" where
  "contains_hebrew text = py_any hebrew_char text"

text \<open>\<^verbatim>\<open>DifyVertexAIIntegration._contains_hebrew\<close>, a second copy of the same body.\<close>

definition dify_contains_hebrew :: "pystr \<Rightarrow> bool" where
  "dify_contains_hebrew text = py_any hebrew_char text"

text \<open>
  The instruction block of \<^verbatim>\<open>_prepare_hebrew_prompt\<close>: two lines of Hebrew text, the first
  ending in a space, each ending in a newline.
\<close>

definition hebrew_instructions :: pystr where
  "hebrew_instructions = [
     1488, 1504, 1488, 32, 1492, 1513, 1489, 32, 1489, 1506, 1489, 1512, 1497, 1514, 32, 1489,
     1510, 1493, 1512, 1492, 32, 1489, 1512, 1493, 1512, 1492, 32, 1493, 1502, 1491, 1493, 1497,
     1511, 1514, 46, 32, 10, 1513, 1497, 1501, 32, 1500, 1489, 32, 1500, 1499, 1497, 1493,
     1493, 1504, 1497, 1493, 1514, 32, 1492, 1496, 1511, 1505, 1496, 32, 40, 82, 84, 76,
     41, 32, 1493, 1500, 1514, 1511, 1497, 1504, 1493, 1514, 32, 1492, 1491, 1511, 1491, 1493,
     1511, 32, 1492, 1506, 1489, 1512, 1497, 46, 10]"

text \<open>\<^verbatim>\<open>VertexAIProvider._prepare_hebrew_prompt\<close>.\<close>

definition prepare_hebrew_prompt :: "pystr \<Rightarrow> pystr" where
  "prepare_hebrew_prompt prompt =
     (let has_hebrew = py_any hebrew_char prompt
      in if has_hebrew then hebrew_instructions @ blank_line @ prompt
         else prompt @ blank_line @ hebrew_instructions)"

section \<open>The message flattener of \<^verbatim>\<open>dify_vertex_ai_integration.py\<close>\<close>

text \<open>
  A message is a dictionary from keys to values; the flattener reads the keys
  \<^verbatim>\<open>role\<close> and \<^verbatim>\<open>content\<close> with \<^verbatim>\<open>dict.get\<close> and a default.
\<close>

type_synonym message = "pystr \<rightharpoonup> pystr"

definition dict_get :: "('k \<rightharpoonup> 'v) \<Rightarrow> 'k \<Rightarrow> 'v \<Rightarrow> 'v" where
  "dict_get d k dflt = (case d k of None \<Rightarrow> dflt | Some v \<Rightarrow> v)"

text \<open>The loop of \<^verbatim>\<open>_messages_to_prompt\<close>, with \<open>prompt_parts\<close> as the accumulator.\<close>

fun messages_loop :: "message list \<Rightarrow> pystr list \<Rightarrow> pystr list" where
  "messages_loop [] prompt_parts = prompt_parts"
| "messages_loop (message # rest) prompt_parts =
     (let role = dict_get message (ustr ''role'') (ustr ''user'');
          content = dict_get message (ustr ''content'') (ustr [])
      in if role = ustr ''system'' then
           messages_loop rest (prompt_parts @ [ustr ''System: '' @ content])
         else if role = ustr ''user'' then
           messages_loop rest (prompt_parts @ [ustr ''User: '' @ content])
         else if role = ustr ''assistant'' then
           messages_loop rest (prompt_parts @ [ustr ''Assistant: '' @ content])
         else messages_loop rest prompt_parts)"

definition messages_to_prompt :: "message list \<Rightarrow> pystr" where
  "messages_to_prompt messages = join blank_line (messages_loop messages [])"

section \<open>Exceptions\<close>

text \<open>
  An exception is its class and the text \<^verbatim>\<open>str(e)\<close> gives. \<open>ExternalError\<close> stands
  for any class deriving from \<^verbatim>\<open>Exception\<close> that an external collaborator raises (the
  generation API, the chat model). \<^verbatim>\<open>KeyboardInterrupt\<close>, \<^verbatim>\<open>SystemExit\<close> and
  \<^verbatim>\<open>GeneratorExit\<close> derive from \<^verbatim>\<open>BaseException\<close> only, so a handler
  \<^verbatim>\<open>except Exception\<close> lets them pass. A function that can raise returns
  \<open>exn + 'a\<close>, with \<open>Inl\<close> the exception that leaves it.
\<close>

datatype exn_class =
    ValueError | RuntimeError | TypeError | KeyError | ExternalError
  | KeyboardInterrupt | SystemExit | GeneratorExit

datatype exn = Exn exn_class pystr

fun exn_str :: "exn \<Rightarrow> pystr" where
  "exn_str (Exn c msg) = msg"

fun exn_kind :: "exn \<Rightarrow> exn_class" where
  "exn_kind (Exn c msg) = c"

text \<open>Whether \<^verbatim>\<open>except Exception\<close> catches an exception of the class.\<close>

fun derives_from_exception :: "exn_class \<Rightarrow> bool" where
  "derives_from_exception KeyboardInterrupt = False"
| "derives_from_exception SystemExit = False"
| "derives_from_exception GeneratorExit = False"
| "derives_from_exception c = True"

section \<open>The model-call wrapper of \<^verbatim>\<open>vertex_ai_provider.py\<close>\<close>

record model_config =
  mc_name :: pystr
  mc_model_id :: pystr
  mc_max_tokens :: int
  mc_supports_hebrew :: bool
  mc_description :: pystr

text \<open>
  The registry \<^verbatim>\<open>self.available_models\<close> that \<^verbatim>\<open>__init__\<close> builds, in insertion
  order, and its two entries.
\<close>

definition gemini_pro :: model_config where
  "gemini_pro =
     \<lparr>mc_name = ustr ''Gemini Pro'', mc_model_id = ustr ''gemini-1.5-pro'',
      mc_max_tokens = 8192, mc_supports_hebrew = True,
      mc_description = ustr ''Advanced multimodal model with Hebrew RTL support''\<rparr>"

definition gemini_flash :: model_config where
  "gemini_flash =
     \<lparr>mc_name = ustr ''Gemini Flash'', mc_model_id = ustr ''gemini-1.5-flash'',
      mc_max_tokens = 8192, mc_supports_hebrew = True,
      mc_description = ustr ''Fast, efficient model optimized for Hebrew conversations''\<rparr>"

definition init_available_models :: "(pystr \<times> model_config) list" where
  "init_available_models =
     [(ustr ''gemini-pro'', gemini_pro), (ustr ''gemini-flash'', gemini_flash)]"

record provider =
  project_id :: pystr
  location :: pystr
  available_models :: "(pystr \<times> model_config) list"

text \<open>\<^verbatim>\<open>VertexAIProvider.__init__\<close>, after the external \<^verbatim>\<open>vertexai.init\<close>.\<close>

definition new_provider :: "pystr \<Rightarrow> pystr \<Rightarrow> provider" where
  "new_provider pid loc =
     \<lparr>project_id = pid, location = loc, available_models = init_available_models\<rparr>"

text \<open>
  \<^verbatim>\<open>list(d.keys())\<close> formatted into an f-string: the \<^verbatim>\<open>repr\<close> of a list of strings.
  The \<^verbatim>\<open>repr\<close> of a string of printable ASCII characters with no quote and no backslash,
  as the registry's keys are, is the string between single quotes.
\<close>

definition keys_repr :: "pystr list \<Rightarrow> pystr" where
  "keys_repr ks = ustr ''['' @ join (ustr '', '') (map (\<lambda>k. [39] @ k @ [39]) ks) @ ustr '']''"

text \<open>
  The generation parameters. The two floats are only stored, passed on and compared, never
  computed with, so they are real numbers here.
\<close>

record generation_config =
  max_output_tokens :: int
  temperature :: real
  top_p :: real
  top_k :: int

text \<open>
  The external generation API: \<^verbatim>\<open>GenerativeModel(model_id).generate_content(prompt,
  generation_config=config)\<close> followed by reading \<^verbatim>\<open>response.text\<close>. It either raises,
  an exception of any class, or yields the text, which may be absent.
\<close>

type_synonym vertex_api = "pystr \<Rightarrow> pystr \<Rightarrow> generation_config \<Rightarrow> exn + pystr option"

record metadata =
  md_project_id :: pystr
  md_location :: pystr
  md_temperature :: real
  md_max_tokens :: int

text \<open>
  The dictionary \<^verbatim>\<open>generate_response\<close> returns; a key the dictionary does not have is
  \<open>None\<close>, as is the value \<^verbatim>\<open>None\<close> of the key \<^verbatim>\<open>response\<close>.
\<close>

record gen_result =
  success :: bool
  response :: "pystr option"
  error :: "pystr option"
  model :: pystr
  model_id :: "pystr option"
  tokens_used :: "nat option"
  supports_hebrew :: "bool option"
  metadata :: "metadata option"

text \<open>The dictionary literal \<^verbatim>\<open>generation_config\<close> of \<^verbatim>\<open>generate_response\<close>.\<close>

definition make_generation_config :: "model_config \<Rightarrow> int \<Rightarrow> real \<Rightarrow> generation_config" where
  "make_generation_config cfg max_tokens temp =
     \<lparr>max_output_tokens = min max_tokens (mc_max_tokens cfg),
      temperature = temp,
      top_p = 95 / 100,
      top_k = 40\<rparr>"

text \<open>The dictionary \<^verbatim>\<open>generate_response\<close> returns after the call, from the text of the reply.\<close>

definition success_result ::
  "provider \<Rightarrow> pystr \<Rightarrow> model_config \<Rightarrow> int \<Rightarrow> real \<Rightarrow> pystr option \<Rightarrow> gen_result" where
  "success_result self model_name cfg max_tokens temp text =
     (let response_text = (case text of None \<Rightarrow> [] | Some t \<Rightarrow> if t \<noteq> [] then t else [])
      in \<lparr>success = True,
          response = Some response_text,
          error = None,
          model = model_name,
          model_id = Some (mc_model_id cfg),
          tokens_used = Some (if response_text \<noteq> [] then split_len response_text else 0),
          supports_hebrew = Some (mc_supports_hebrew cfg),
          metadata = Some \<lparr>md_project_id = project_id self,
                            md_location = location self,
                            md_temperature = temp,
                            md_max_tokens = max_tokens\<rparr>\<rparr>)"

text \<open>The dictionary of the \<^verbatim>\<open>except\<close> handler.\<close>

definition failure_result :: "pystr \<Rightarrow> exn \<Rightarrow> gen_result" where
  "failure_result model_name e =
     \<lparr>success = False,
      response = None,
      error = Some (exn_str e),
      model = model_name,
      model_id = None,
      tokens_used = None,
      supports_hebrew = None,
      metadata = None\<rparr>"

text \<open>The body of the \<^verbatim>\<open>try\<close> block of \<^verbatim>\<open>VertexAIProvider.generate_response\<close>.\<close>

definition generate_response_try ::
  "vertex_api \<Rightarrow> provider \<Rightarrow> pystr \<Rightarrow> pystr \<Rightarrow> int \<Rightarrow> real \<Rightarrow> bool \<Rightarrow> exn + gen_result" where
  "generate_response_try api self prompt model_name max_tokens temp enable_hebrew =
     (case map_of (available_models self) model_name of
        None \<Rightarrow>
          Inl (Exn ValueError
            (ustr ''Model '' @ model_name @ ustr '' not available. Choose from: '' @
             keys_repr (map fst (available_models self))))
      | Some cfg \<Rightarrow>
          (let mid = mc_model_id cfg;
               enhanced_prompt = (if enable_hebrew then prepare_hebrew_prompt prompt else prompt);
               config = make_generation_config cfg max_tokens temp
           in case api mid enhanced_prompt config of
                Inl e \<Rightarrow> Inl e
              | Inr text \<Rightarrow> Inr (success_result self model_name cfg max_tokens temp text)))"

text \<open>
  \<^verbatim>\<open>VertexAIProvider.generate_response\<close>: the \<^verbatim>\<open>try\<close> block and its
  \<^verbatim>\<open>except Exception\<close> handler, which catches an exception of the block that derives
  from \<^verbatim>\<open>Exception\<close> and returns the failure dictionary; any other exception leaves the
  function.
\<close>

definition generate_response ::
  "vertex_api \<Rightarrow> provider \<Rightarrow> pystr \<Rightarrow> pystr \<Rightarrow> int \<Rightarrow> real \<Rightarrow> bool \<Rightarrow> exn + gen_result" where
  "generate_response api self prompt model_name max_tokens temp enable_hebrew =
     (case generate_response_try api self prompt model_name max_tokens temp enable_hebrew of
        Inr r \<Rightarrow> Inr r
      | Inl e \<Rightarrow>
          if derives_from_exception (exn_kind e) then Inr (failure_result model_name e)
          else Inl e)"

section \<open>The integration layer of \<^verbatim>\<open>dify_vertex_ai_integration.py\<close>\<close>

record param_rule =
  p_type :: pystr
  p_min :: real
  p_max :: real
  p_default :: real

record dify_model_config =
  dm_model_name :: pystr
  dm_model_type :: pystr
  dm_mode :: pystr
  dm_context_size :: int
  dm_max_chunks :: int
  dm_chunk_size :: int
  dm_credentials :: "pystr list"
  dm_parameters :: "(pystr \<times> param_rule) list"

definition dify_parameters :: "real \<Rightarrow> (pystr \<times> param_rule) list" where
  "dify_parameters default_temperature =
     [(ustr ''temperature'',
       \<lparr>p_type = ustr ''float'', p_min = 0, p_max = 1, p_default = default_temperature\<rparr>),
      (ustr ''max_tokens'',
       \<lparr>p_type = ustr ''int'', p_min = 1, p_max = 8192, p_default = 1024\<rparr>),
      (ustr ''top_p'',
       \<lparr>p_type = ustr ''float'', p_min = 0, p_max = 1, p_default = 95 / 100\<rparr>),
      (ustr ''top_k'',
       \<lparr>p_type = ustr ''int'', p_min = 1, p_max = 100, p_default = 40\<rparr>)]"

definition dify_config :: "pystr \<Rightarrow> real \<Rightarrow> dify_model_config" where
  "dify_config nm default_temperature =
     \<lparr>dm_model_name = nm, dm_model_type = ustr ''llm'', dm_mode = ustr ''chat'',
      dm_context_size = 30720, dm_max_chunks = 1, dm_chunk_size = 4000,
      dm_credentials = [ustr ''project_id'', ustr ''location'', ustr ''service_account_key''],
      dm_parameters = dify_parameters default_temperature\<rparr>"

text \<open>The table \<^verbatim>\<open>self.model_configs\<close> of \<^verbatim>\<open>DifyVertexAIIntegration.__init__\<close>.\<close>

definition init_model_configs :: "(pystr \<times> dify_model_config) list" where
  "init_model_configs =
     [(ustr ''gemini-pro'', dify_config (ustr ''gemini-pro'') (7 / 10)),
      (ustr ''gemini-flash'', dify_config (ustr ''gemini-flash'') (3 / 10))]"

record integration =
  provider_name :: pystr
  supported_model_types :: "pystr list"
  vertex_provider :: "provider option"
  model_configs :: "(pystr \<times> dify_model_config) list"

text \<open>\<^verbatim>\<open>DifyVertexAIIntegration.__init__\<close>: no provider yet.\<close>

definition new_integration :: integration where
  "new_integration =
     \<lparr>provider_name = ustr ''vertex_ai'',
      supported_model_types = [ustr ''llm'', ustr ''chat'', ustr ''text-generation''],
      vertex_provider = None,
      model_configs = init_model_configs\<rparr>"

text \<open>
  The \<^verbatim>\<open>parameters\<close> dictionary, of which \<^verbatim>\<open>generate_response\<close> reads two keys with
  \<^verbatim>\<open>dict.get\<close> and the defaults 0.7 and 1024.
\<close>

record parameters =
  par_temperature :: "real option"
  par_max_tokens :: "int option"

definition param_temperature :: "parameters \<Rightarrow> real" where
  "param_temperature params = (case par_temperature params of None \<Rightarrow> 7 / 10 | Some t \<Rightarrow> t)"

definition param_max_tokens :: "parameters \<Rightarrow> int" where
  "param_max_tokens params = (case par_max_tokens params of None \<Rightarrow> 1024 | Some n \<Rightarrow> n)"

record usage =
  prompt_tokens :: nat
  completion_tokens :: nat
  total_tokens :: nat

record dify_response =
  dr_model :: pystr
  dr_usage :: usage
  dr_role :: pystr
  dr_content :: "pystr option"

text \<open>
  \<^verbatim>\<open>DifyVertexAIIntegration.generate_response\<close>. Subscripting the wrapper's dictionary at a
  key it does not have raises \<^verbatim>\<open>KeyError\<close>, whose text is the \<^verbatim>\<open>repr\<close> of the key.
\<close>

definition dify_generate_response ::
  "vertex_api \<Rightarrow> integration \<Rightarrow> pystr \<Rightarrow> message list \<Rightarrow> parameters \<Rightarrow> exn + dify_response" where
  "dify_generate_response api self mdl msgs params =
     (case vertex_provider self of
        None \<Rightarrow> Inl (Exn RuntimeError (ustr ''Vertex AI provider not initialized''))
      | Some vp \<Rightarrow>
          if map_of (model_configs self) mdl = None then
            Inl (Exn ValueError (ustr ''Model '' @ mdl @ ustr '' not supported''))
          else
            (let prompt = messages_to_prompt msgs;
                 temp = param_temperature params;
                 max_tokens = param_max_tokens params
             in case generate_response api vp prompt mdl max_tokens temp True of
                  Inl e \<Rightarrow> Inl e
                | Inr r \<Rightarrow>
                    if \<not> success r then
                      (case error r of
                         None \<Rightarrow> Inl (Exn KeyError ([39] @ ustr ''error'' @ [39]))
                       | Some msg \<Rightarrow> Inl (Exn RuntimeError (ustr ''Generation failed: '' @ msg)))
                    else
                      (case tokens_used r of
                         None \<Rightarrow>
                           Inl (Exn KeyError
                             ([39] @ ustr ''tokens_used'' @ [39]))
                       | Some n \<Rightarrow>
                           Inr \<lparr>dr_model = mdl,
                                dr_usage = \<lparr>prompt_tokens = split_len prompt,
                                            completion_tokens = n,
                                            total_tokens = split_len prompt + n\<rparr>,
                                dr_role = ustr ''assistant'',
                                dr_content = response r\<rparr>)))"

section \<open>The agent router of \<^verbatim>\<open>agents_orchestrator.py\<close>\<close>

subsection \<open>JSON values and the external collaborators\<close>

text \<open>
  The values \<^verbatim>\<open>json.loads\<close> yields. An object is its key-value pairs in insertion
  order, each key once. A float is a real number here: the values NaN and Infinity, which
  \<^verbatim>\<open>json.loads\<close> also accepts, are left out.
\<close>

datatype json =
    JNull
  | JBool bool
  | JInt int
  | JFloat real
  | JString pystr
  | JArray "json list"
  | JObject "(pystr \<times> json) list"

text \<open>\<^verbatim>\<open>d.get(key, default)\<close> on the dictionary of an object.\<close>

definition obj_get :: "(pystr \<times> json) list \<Rightarrow> pystr \<Rightarrow> json \<Rightarrow> json" where
  "obj_get d k dflt = (case map_of d k of None \<Rightarrow> dflt | Some v \<Rightarrow> v)"

text \<open>The truth value of a value in a conditional expression.\<close>

fun truthy :: "json \<Rightarrow> bool" where
  "truthy JNull = False"
| "truthy (JBool b) = b"
| "truthy (JInt n) = (n \<noteq> 0)"
| "truthy (JFloat x) = (x \<noteq> 0)"
| "truthy (JString s) = (s \<noteq> [])"
| "truthy (JArray xs) = (xs \<noteq> [])"
| "truthy (JObject d) = (d \<noteq> [])"

datatype chat_message = HumanMessage pystr | AIMessage pystr

fun content :: "chat_message \<Rightarrow> pystr" where
  "content (HumanMessage c) = c"
| "content (AIMessage c) = c"

fun is_human :: "chat_message \<Rightarrow> bool" where
  "is_human (HumanMessage c) = True"
| "is_human (AIMessage c) = False"

text \<open>The list of role and content pairs handed to \<^verbatim>\<open>self.llm.invoke\<close>.\<close>

type_synonym chat_prompt = "(pystr \<times> pystr) list"

text \<open>
  What the router calls and does not define: the chat model (\<open>llm_invoke\<close> gives the
  \<^verbatim>\<open>content\<close> of its reply, or the exception it raises, of any class), \<^verbatim>\<open>json.loads\<close>
  (\<open>None\<close> when it raises) and the \<^verbatim>\<open>repr\<close> of a value, which an f-string uses for a
  value that is not a string.
\<close>

record env =
  llm_invoke :: "chat_prompt \<Rightarrow> exn + pystr"
  json_loads :: "pystr \<Rightarrow> json option"
  py_repr :: "json \<Rightarrow> pystr"

text \<open>A value formatted into an f-string.\<close>

definition format_value :: "env \<Rightarrow> json \<Rightarrow> pystr" where
  "format_value ev v = (case v of JString s \<Rightarrow> s | _ \<Rightarrow> py_repr ev v)"

subsection \<open>State and updates\<close>

text \<open>
  \<^verbatim>\<open>AgentState\<close>, a typed dictionary with all five keys. The model's reply decides what
  \<^verbatim>\<open>current_task\<close> and \<^verbatim>\<open>next_agent\<close> hold, so they are values, not only strings.
\<close>

record agent_state =
  messages :: "chat_message list"
  current_task :: json
  completed_tasks :: "json list"
  context_dict :: "(pystr \<times> json) list"
  next_agent :: json

text \<open>The partial dictionary a step returns: \<open>None\<close> for a key it does not have.\<close>

record update =
  up_messages :: "chat_message list option"
  up_current_task :: "json option"
  up_completed_tasks :: "json list option"
  up_next_agent :: "json option"
  up_context :: "(pystr \<times> json) list option"

text \<open>The \<^verbatim>\<open>except\<close> branch that all four steps share but for the successor.\<close>

definition fallback_update :: "agent_state \<Rightarrow> pystr \<Rightarrow> pystr \<Rightarrow> update" where
  "fallback_update state reply successor =
     \<lparr>up_messages = Some (messages state @ [AIMessage reply]),
      up_current_task = None,
      up_completed_tasks = None,
      up_next_agent = Some (JString successor),
      up_context = Some (context_dict state)\<rparr>"

subsection \<open>The four steps\<close>

definition planner_system_prompt :: pystr where
  "planner_system_prompt = [
     10, 32, 32, 32, 32, 32, 32, 32, 32, 1488, 1514, 1492, 32, 1505, 1493, 1499,
     1503, 32, 1514, 1499, 1504, 1493, 1503, 32, 1495, 1499, 1501, 46, 32, 1492, 1502, 1513,
     1497, 1502, 1492, 32, 1513, 1500, 1498, 58, 10, 32, 32, 32, 32, 32, 32, 32,
     32, 49, 46, 32, 1500, 1504, 1514, 1495, 32, 1488, 1514, 32, 1492, 1489, 1511, 1513,
     1492, 32, 1513, 1500, 32, 1492, 1502, 1513, 1514, 1502, 1513, 10, 32, 32, 32, 32,
     32, 32, 32, 32, 50, 46, 32, 1500, 1495, 1500, 1511, 32, 1488, 1493, 1514, 1492,
     32, 1500, 1502, 1513, 1497, 1502, 1493, 1514, 32, 1511, 1496, 1504, 1493, 1514, 10, 32,
     32, 32, 32, 32, 32, 32, 32, 51, 46, 32, 1500, 1492, 1495, 1500, 1497, 1496,
     32, 1488, 1497, 1494, 1492, 32, 1505, 1493, 1499, 1503, 32, 1510, 1512, 1497, 1498, 32,
     1500, 1489, 1510, 1506, 32, 1499, 1500, 32, 1502, 1513, 1497, 1502, 1492, 10, 32, 32,
     32, 32, 32, 32, 32, 32, 52, 46, 32, 1500, 1514, 1514, 32, 1492, 1493, 1512,
     1488, 1493, 1514, 32, 1489, 1512, 1493, 1512, 1493, 1514, 10, 32, 32, 32, 32, 32,
     32, 32, 32, 10, 32, 32, 32, 32, 32, 32, 32, 32, 1492, 1513, 1489, 32,
     1514, 1502, 1497, 1491, 32, 1489, 1508, 1493, 1512, 1502, 1496, 32, 74, 83, 79, 78,
     58, 10, 32, 32, 32, 32, 32, 32, 32, 32, 123, 10, 32, 32, 32, 32,
     32, 32, 32, 32, 32, 32, 34, 112, 108, 97, 110, 34, 58, 32, 91, 34,
     1502, 1513, 1497, 1502, 1492, 32, 49, 34, 44, 32, 34, 1502, 1513, 1497, 1502, 1492,
     32, 50, 34, 93, 44, 10, 32, 32, 32, 32, 32, 32, 32, 32, 32, 32,
     34, 110, 101, 120, 116, 95, 97, 103, 101, 110, 116, 34, 58, 32, 34, 114,
     101, 115, 101, 97, 114, 99, 104, 101, 114, 47, 99, 111, 100, 101, 114, 47,
     114, 101, 118, 105, 101, 119, 101, 114, 34, 44, 10, 32, 32, 32, 32, 32,
     32, 32, 32, 32, 32, 34, 105, 110, 115, 116, 114, 117, 99, 116, 105, 111,
     110, 115, 34, 58, 32, 34, 1492, 1493, 1512, 1488, 1493, 1514, 32, 1505, 1508, 1510,
     1497, 1508, 1497, 1493, 1514, 34, 10, 32, 32, 32, 32, 32, 32, 32, 32, 125,
     10, 32, 32, 32, 32, 32, 32, 32, 32]"

definition researcher_system_prompt :: pystr where
  "researcher_system_prompt = [
     10, 32, 32, 32, 32, 32, 32, 32, 32, 1488, 1514, 1492, 32, 1505, 1493, 1499,
     1503, 32, 1502, 1495, 1511, 1512, 32, 1502, 1511, 1510, 1493, 1506, 1497, 46, 32, 1492,
     1502, 1513, 1497, 1502, 1492, 32, 1513, 1500, 1498, 58, 10, 32, 32, 32, 32, 32,
     32, 32, 32, 49, 46, 32, 1500, 1495, 1511, 1493, 1512, 32, 1493, 1500, 1488, 1505,
     1493, 1507, 32, 1502, 1497, 1491, 1506, 32, 1512, 1500, 1493, 1493, 1504, 1496, 1497, 10,
     32, 32, 32, 32, 32, 32, 32, 32, 50, 46, 32, 1500, 1504, 1514, 1495, 32,
     1493, 1500, 1505, 1499, 1501, 32, 1488, 1514, 32, 1492, 1502, 1502, 1510, 1488, 1497, 1501,
     10, 32, 32, 32, 32, 32, 32, 32, 32, 51, 46, 32, 1500, 1492, 1502, 1500,
     1497, 1509, 32, 1506, 1500, 32, 1492, 1510, 1506, 1491, 32, 1492, 1489, 1488, 10, 32,
     32, 32, 32, 32, 32, 32, 32, 10, 32, 32, 32, 32, 32, 32, 32, 32,
     1492, 1513, 1489, 32, 1514, 1502, 1497, 1491, 32, 1489, 1508, 1493, 1512, 1502, 1496, 32,
     74, 83, 79, 78, 58, 10, 32, 32, 32, 32, 32, 32, 32, 32, 123, 10,
     32, 32, 32, 32, 32, 32, 32, 32, 32, 32, 34, 114, 101, 115, 101, 97,
     114, 99, 104, 95, 114, 101, 115, 117, 108, 116, 115, 34, 58, 32, 34, 1505,
     1497, 1499, 1493, 1501, 32, 1492, 1502, 1502, 1510, 1488, 1497, 1501, 34, 44, 10, 32,
     32, 32, 32, 32, 32, 32, 32, 32, 32, 34, 114, 101, 99, 111, 109, 109,
     101, 110, 100, 97, 116, 105, 111, 110, 115, 34, 58, 32, 34, 1492, 1502, 1500,
     1510, 1493, 1514, 32, 1500, 1510, 1506, 1491, 32, 1492, 1489, 1488, 34, 44, 10, 32,
     32, 32, 32, 32, 32, 32, 32, 32, 32, 34, 110, 101, 120, 116, 95, 97,
     103, 101, 110, 116, 34, 58, 32, 34, 99, 111, 100, 101, 114, 47, 112, 108,
     97, 110, 110, 101, 114, 47, 114, 101, 118, 105, 101, 119, 101, 114, 34, 10,
     32, 32, 32, 32, 32, 32, 32, 32, 125, 10, 32, 32, 32, 32, 32, 32,
     32, 32]"

definition coder_system_prompt :: pystr where
  "coder_system_prompt = [
     10, 32, 32, 32, 32, 32, 32, 32, 32, 1488, 1514, 1492, 32, 1502, 1508, 1514,
     1495, 32, 1514, 1493, 1499, 1504, 1492, 32, 1502, 1493, 1502, 1495, 1492, 46, 32, 1492,
     1502, 1513, 1497, 1502, 1492, 32, 1513, 1500, 1498, 58, 10, 32, 32, 32, 32, 32,
     32, 32, 32, 49, 46, 32, 1500, 1499, 1514, 1493, 1489, 32, 1511, 1493, 1491, 32,
     1488, 1497, 1499, 1493, 1514, 1497, 32, 1493, 1502, 1514, 1493, 1506, 1491, 10, 32, 32,
     32, 32, 32, 32, 32, 32, 50, 46, 32, 1500, 1508, 1514, 1493, 1512, 32, 1489,
     1506, 1497, 1493, 1514, 32, 1496, 1499, 1504, 1497, 1493, 1514, 10, 32, 32, 32, 32,
     32, 32, 32, 32, 51, 46, 32, 1500, 1492, 1510, 1497, 1506, 32, 1508, 1514, 1512,
     1493, 1504, 1493, 1514, 32, 1497, 1506, 1497, 1500, 1497, 1501, 10, 32, 32, 32, 32,
     32, 32, 32, 32, 10, 32, 32, 32, 32, 32, 32, 32, 32, 1492, 1513, 1489,
     32, 1514, 1502, 1497, 1491, 32, 1489, 1508, 1493, 1512, 1502, 1496, 32, 74, 83, 79,
     78, 58, 10, 32, 32, 32, 32, 32, 32, 32, 32, 123, 10, 32, 32, 32,
     32, 32, 32, 32, 32, 32, 32, 34, 99, 111, 100, 101, 34, 58, 32, 34,
     1492, 1511, 1493, 1491, 32, 1513, 1504, 1499, 1514, 1489, 34, 44, 10, 32, 32, 32,
     32, 32, 32, 32, 32, 32, 32, 34, 101, 120, 112, 108, 97, 110, 97, 116,
     105, 111, 110, 34, 58, 32, 34, 1492, 1505, 1489, 1512, 32, 1506, 1500, 32, 1492,
     1511, 1493, 1491, 34, 44, 10, 32, 32, 32, 32, 32, 32, 32, 32, 32, 32,
     34, 110, 101, 120, 116, 95, 97, 103, 101, 110, 116, 34, 58, 32, 34, 114,
     101, 118, 105, 101, 119, 101, 114, 47, 112, 108, 97, 110, 110, 101, 114, 34,
     10, 32, 32, 32, 32, 32, 32, 32, 32, 125, 10, 32, 32, 32, 32, 32,
     32, 32, 32]"

definition reviewer_system_prompt :: pystr where
  "reviewer_system_prompt = [
     10, 32, 32, 32, 32, 32, 32, 32, 32, 1488, 1514, 1492, 32, 1505, 1493, 1499,
     1503, 32, 1489, 1497, 1511, 1493, 1512, 1514, 32, 1511, 1508, 1491, 1504, 1497, 46, 32,
     1492, 1502, 1513, 1497, 1502, 1492, 32, 1513, 1500, 1498, 58, 10, 32, 32, 32, 32,
     32, 32, 32, 32, 49, 46, 32, 1500, 1489, 1491, 1493, 1511, 32, 1488, 1514, 32,
     1488, 1497, 1499, 1493, 1514, 32, 1492, 1506, 1489, 1493, 1491, 1492, 10, 32, 32, 32,
     32, 32, 32, 32, 32, 50, 46, 32, 1500, 1492, 1510, 1497, 1506, 32, 1513, 1497,
     1508, 1493, 1512, 1497, 1501, 10, 32, 32, 32, 32, 32, 32, 32, 32, 51, 46,
     32, 1500, 1492, 1495, 1500, 1497, 1496, 32, 1488, 1501, 32, 1505, 1497, 1497, 1502, 1504,
     1493, 32, 1488, 1493, 32, 1510, 1512, 1497, 1498, 32, 1506, 1493, 1491, 32, 1506, 1489,
     1493, 1491, 1492, 10, 32, 32, 32, 32, 32, 32, 32, 32, 10, 32, 32, 32,
     32, 32, 32, 32, 32, 1492, 1513, 1489, 32, 1514, 1502, 1497, 1491, 32, 1489, 1508,
     1493, 1512, 1502, 1496, 32, 74, 83, 79, 78, 58, 10, 32, 32, 32, 32, 32,
     32, 32, 32, 123, 10, 32, 32, 32, 32, 32, 32, 32, 32, 32, 32, 34,
     114, 101, 118, 105, 101, 119, 34, 58, 32, 34, 1489, 1497, 1511, 1493, 1512, 1514,
     32, 1502, 1508, 1493, 1512, 1496, 1514, 34, 44, 10, 32, 32, 32, 32, 32, 32,
     32, 32, 32, 32, 34, 97, 112, 112, 114, 111, 118, 101, 100, 34, 58, 32,
     116, 114, 117, 101, 47, 102, 97, 108, 115, 101, 44, 10, 32, 32, 32, 32,
     32, 32, 32, 32, 32, 32, 34, 110, 101, 120, 116, 95, 97, 103, 101, 110,
     116, 34, 58, 32, 34, 69, 78, 68, 47, 112, 108, 97, 110, 110, 101, 114,
     47, 99, 111, 100, 101, 114, 34, 10, 32, 32, 32, 32, 32, 32, 32, 32,
     125, 10, 32, 32, 32, 32, 32, 32, 32, 32]"

text \<open>The Hebrew prefixes of the three f-strings, each ending in a colon and a space.\<close>

definition research_prefix :: pystr where
  "research_prefix = [1495, 1511, 1493, 1512, 58, 32]"

definition code_prefix :: pystr where
  "code_prefix = [1499, 1514, 1493, 1489, 32, 1511, 1493, 1491, 32, 1506, 1489, 1493, 1512, 58, 32]"

definition review_prefix :: pystr where
  "review_prefix = [1489, 1491, 1493, 1511, 58, 32]"

definition planner_prompt :: "agent_state \<Rightarrow> chat_prompt" where
  "planner_prompt state =
     [(ustr ''system'', planner_system_prompt)] @
     map (\<lambda>m. (if is_human m then ustr ''human'' else ustr ''assistant'', content m))
       (messages state)"

definition researcher_prompt :: "env \<Rightarrow> agent_state \<Rightarrow> chat_prompt" where
  "researcher_prompt ev state =
     [(ustr ''system'', researcher_system_prompt)] @
     [(ustr ''human'', research_prefix @ format_value ev (current_task state))]"

definition coder_prompt :: "env \<Rightarrow> agent_state \<Rightarrow> chat_prompt" where
  "coder_prompt ev state =
     [(ustr ''system'', coder_system_prompt)] @
     [(ustr ''human'', code_prefix @ format_value ev (current_task state))]"

definition reviewer_prompt :: "env \<Rightarrow> agent_state \<Rightarrow> chat_prompt" where
  "reviewer_prompt ev state =
     [(ustr ''system'', reviewer_system_prompt)] @
     [(ustr ''human'', review_prefix @ format_value ev (JObject (context_dict state)))]"

text \<open>
  In each step the \<^verbatim>\<open>try\<close> block fails, and the bare \<^verbatim>\<open>except\<close> runs, when
  \<^verbatim>\<open>json.loads\<close> raises and when its value is not a dictionary (no other value has
  \<^verbatim>\<open>get\<close>). The call of the chat model stands before the \<^verbatim>\<open>try\<close>.
\<close>

definition planner_logic :: "env \<Rightarrow> agent_state \<Rightarrow> exn + update" where
  "planner_logic ev state =
     (case llm_invoke ev (planner_prompt state) of
        Inl e \<Rightarrow> Inl e
      | Inr reply \<Rightarrow>
          (case json_loads ev reply of
             Some (JObject result) \<Rightarrow>
               Inr \<lparr>up_messages = Some (messages state @ [AIMessage reply]),
                    up_current_task = Some (obj_get result (ustr ''instructions'') (JString [])),
                    up_completed_tasks = None,
                    up_next_agent =
                      Some (obj_get result (ustr ''next_agent'') (JString (ustr ''researcher''))),
                    up_context =
                      Some (AList.update (ustr ''plan'') (obj_get result (ustr ''plan'') (JArray []))
                              (context_dict state))\<rparr>
           | _ \<Rightarrow> Inr (fallback_update state reply (ustr ''researcher''))))"

definition researcher_logic :: "env \<Rightarrow> agent_state \<Rightarrow> exn + update" where
  "researcher_logic ev state =
     (case llm_invoke ev (researcher_prompt ev state) of
        Inl e \<Rightarrow> Inl e
      | Inr reply \<Rightarrow>
          (case json_loads ev reply of
             Some (JObject result) \<Rightarrow>
               Inr \<lparr>up_messages = Some (messages state @ [AIMessage reply]),
                    up_current_task = None,
                    up_completed_tasks = Some (completed_tasks state @ [current_task state]),
                    up_next_agent =
                      Some (obj_get result (ustr ''next_agent'') (JString (ustr ''coder''))),
                    up_context =
                      Some (AList.update (ustr ''research'') (JObject result)
                              (context_dict state))\<rparr>
           | _ \<Rightarrow> Inr (fallback_update state reply (ustr ''coder''))))"

definition coder_logic :: "env \<Rightarrow> agent_state \<Rightarrow> exn + update" where
  "coder_logic ev state =
     (case llm_invoke ev (coder_prompt ev state) of
        Inl e \<Rightarrow> Inl e
      | Inr reply \<Rightarrow>
          (case json_loads ev reply of
             Some (JObject result) \<Rightarrow>
               Inr \<lparr>up_messages = Some (messages state @ [AIMessage reply]),
                    up_current_task = None,
                    up_completed_tasks = Some (completed_tasks state @ [current_task state]),
                    up_next_agent =
                      Some (obj_get result (ustr ''next_agent'') (JString (ustr ''reviewer''))),
                    up_context =
                      Some (AList.update (ustr ''code'') (JObject result) (context_dict state))\<rparr>
           | _ \<Rightarrow> Inr (fallback_update state reply (ustr ''reviewer''))))"

definition reviewer_logic :: "env \<Rightarrow> agent_state \<Rightarrow> exn + update" where
  "reviewer_logic ev state =
     (case llm_invoke ev (reviewer_prompt ev state) of
        Inl e \<Rightarrow> Inl e
      | Inr reply \<Rightarrow>
          (case json_loads ev reply of
             Some (JObject result) \<Rightarrow>
               (let next_step =
                      (if truthy (obj_get result (ustr ''approved'') (JBool False))
                       then JString (ustr ''END'')
                       else obj_get result (ustr ''next_agent'') (JString (ustr ''planner'')))
                in Inr \<lparr>up_messages = Some (messages state @ [AIMessage reply]),
                        up_current_task = None,
                        up_completed_tasks =
                          Some (completed_tasks state @ [JString (ustr ''review'')]),
                        up_next_agent = Some next_step,
                        up_context =
                          Some (AList.update (ustr ''review'') (JObject result)
                                  (context_dict state))\<rparr>)
           | _ \<Rightarrow> Inr (fallback_update state reply (ustr ''END''))))"

subsection \<open>The graph\<close>

text \<open>The registry \<^verbatim>\<open>self.agents\<close>, in insertion order.\<close>

definition agents :: "env \<Rightarrow> (pystr \<times> (agent_state \<Rightarrow> exn + update)) list" where
  "agents ev =
     [(ustr ''planner'', planner_logic ev),
      (ustr ''researcher'', researcher_logic ev),
      (ustr ''coder'', coder_logic ev),
      (ustr ''reviewer'', reviewer_logic ev)]"

text \<open>What \<^verbatim>\<open>route_next\<close> returns: the name of a step, or the constant \<^verbatim>\<open>END\<close>.\<close>

datatype route = Node pystr | End

text \<open>
  \<^verbatim>\<open>route_next\<close> of \<^verbatim>\<open>_build_workflow\<close>. The membership test hashes the value, so a
  list or a dictionary raises \<^verbatim>\<open>TypeError\<close>; a value of another type is no key of the
  registry.
\<close>

definition route_next :: "env \<Rightarrow> agent_state \<Rightarrow> exn + route" where
  "route_next ev state =
     (case next_agent state of
        JString s \<Rightarrow> if map_of (agents ev) s \<noteq> None then Inr (Node s) else Inr End
      | JArray xs \<Rightarrow> Inl (Exn TypeError (ustr ''unhashable type: '' @ [39] @ ustr ''list'' @ [39]))
      | JObject d \<Rightarrow> Inl (Exn TypeError (ustr ''unhashable type: '' @ [39] @ ustr ''dict'' @ [39]))
      | _ \<Rightarrow> Inr End)"

text \<open>
  Modelled from the spec: the merge of a step's partial update into the shared state, which
  the graph library does between steps (``each step ... returns a partial update merged into
  the existing state''). A key of the update replaces the state's value; the other keys
  stay.
\<close>

definition merge_update :: "agent_state \<Rightarrow> update \<Rightarrow> agent_state" where
  "merge_update state upd =
     \<lparr>messages = (case up_messages upd of None \<Rightarrow> messages state | Some v \<Rightarrow> v),
      current_task = (case up_current_task upd of None \<Rightarrow> current_task state | Some v \<Rightarrow> v),
      completed_tasks =
        (case up_completed_tasks upd of None \<Rightarrow> completed_tasks state | Some v \<Rightarrow> v),
      context_dict = (case up_context upd of None \<Rightarrow> context_dict state | Some v \<Rightarrow> v),
      next_agent = (case up_next_agent upd of None \<Rightarrow> next_agent state | Some v \<Rightarrow> v)\<rparr>"

text \<open>
  The constant \<^verbatim>\<open>END\<close> of the graph library is the string \<^verbatim>\<open>__end__\<close>; the value
  \<^verbatim>\<open>route_next\<close> returns is the name of the step or that string.
\<close>

definition end_constant :: pystr where
  "end_constant = ustr ''__end__''"

fun route_value :: "route \<Rightarrow> pystr" where
  "route_value (Node s) = s"
| "route_value End = end_constant"

text \<open>
  The path map \<^verbatim>\<open>_build_workflow\<close> gives \<^verbatim>\<open>add_conditional_edges\<close> for every step:
  each name of the registry to itself, united with the one entry from the string
  \<^verbatim>\<open>"END"\<close> to the constant \<^verbatim>\<open>END\<close>.
\<close>

definition path_map :: "env \<Rightarrow> pystr \<rightharpoonup> pystr" where
  "path_map ev =
     map_of (map (\<lambda>name. (name, name)) (map fst (agents ev))) ++
     [ustr ''END'' \<mapsto> end_constant]"

text \<open>
  Modelled from the spec: the execution of the compiled graph, which is the graph library's
  and not this repository's (``sequentially invoked step ... merged into shared state ...
  router reads next_agent ... next step or termination'', with no limit on the number of
  steps). The graph \<^verbatim>\<open>_build_workflow\<close> declares has the four steps as nodes and, after
  each of them, the conditional edge \<^verbatim>\<open>route_next\<close> with the path map. One round runs
  the step of the current node, merges its update and follows the edge: the library
  subscripts the path map with the value \<^verbatim>\<open>route_next\<close> returns, which raises
  \<^verbatim>\<open>KeyError\<close> for a value that is no key of the map, and goes to the destination
  found, which is the next step or, when it is \<^verbatim>\<open>END\<close>, the end of the run. The
  first argument bounds the number of rounds: \<open>None\<close> is a run that has not ended within
  it. The result is what the run returns or raises, then the nodes run so far, in order,
  then the state the run had reached when it ended, which the caller does not get when the
  run raises.
\<close>

text \<open>The \<^verbatim>\<open>KeyError\<close> of a failed subscript: its text is the \<^verbatim>\<open>repr\<close> of the key.\<close>

definition key_error :: "pystr \<Rightarrow> exn" where
  "key_error k = Exn KeyError ([39] @ k @ [39])"

fun run_graph ::
  "nat \<Rightarrow> env \<Rightarrow> pystr \<Rightarrow> agent_state \<Rightarrow> pystr list \<Rightarrow>
     ((exn + agent_state) \<times> pystr list \<times> agent_state) option" where
  "run_graph 0 ev node state visited = None"
| "run_graph (Suc fuel) ev node state visited =
     (case map_of (agents ev) node of
        None \<Rightarrow> Some (Inl (key_error node), visited, state)
      | Some step \<Rightarrow>
          (case step state of
             Inl e \<Rightarrow> Some (Inl e, visited @ [node], state)
           | Inr upd \<Rightarrow>
               (let state' = merge_update state upd
                in case route_next ev state' of
                     Inl e \<Rightarrow> Some (Inl e, visited @ [node], state')
                   | Inr r \<Rightarrow>
                       (case path_map ev (route_value r) of
                          None \<Rightarrow> Some (Inl (key_error (route_value r)), visited @ [node], state')
                        | Some destination \<Rightarrow>
                            if destination = end_constant
                            then Some (Inr state', visited @ [node], state')
                            else run_graph fuel ev destination state' (visited @ [node])))))"

text \<open>
  The result of \<^verbatim>\<open>run\<close>: the final state, the dictionary of its
  \<^verbatim>\<open>except Exception\<close> branch, or the exception that branch does not catch.
\<close>

datatype run_result = Final agent_state | Failed pystr "chat_message list" | Raised exn

definition error_prefix :: pystr where
  "error_prefix = [1513, 1490, 1497, 1488, 1492, 58, 32]"

definition initial_state :: "pystr \<Rightarrow> agent_state" where
  "initial_state user_input =
     \<lparr>messages = [HumanMessage user_input],
      current_task = JString user_input,
      completed_tasks = [],
      context_dict = [],
      next_agent = JString (ustr ''planner'')\<rparr>"

text \<open>
  \<^verbatim>\<open>MultiAgentOrchestrator.run\<close>; the entry point \<^verbatim>\<open>_build_workflow\<close> sets is the
  planner. The result comes with the nodes the run went through.
\<close>

definition run :: "nat \<Rightarrow> env \<Rightarrow> pystr \<Rightarrow> (run_result \<times> pystr list) option" where
  "run fuel ev user_input =
     (case run_graph fuel ev (ustr ''planner'') (initial_state user_input) [] of
        None \<Rightarrow> None
      | Some (Inr result, visited, reached) \<Rightarrow> Some (Final result, visited)
      | Some (Inl e, visited, reached) \<Rightarrow>
          if derives_from_exception (exn_kind e)
          then Some (Failed (exn_str e) [AIMessage (error_prefix @ exn_str e)], visited)
          else Some (Raised e, visited))"

section \<open>The flattener as the specification words it\<close>

text \<open>
  The roles the specification's fixed mapping knows, the capitalised marker of each, and the
  flattening it describes: the retained messages, each as marker and content, joined by
  blank lines in input order.
\<close>

definition spec_known_role :: "pystr \<Rightarrow> bool" where
  "spec_known_role r \<longleftrightarrow> r = ustr ''system'' \<or> r = ustr ''user'' \<or> r = ustr ''assistant''"

definition spec_marker :: "pystr \<Rightarrow> pystr" where
  "spec_marker r =
     (if r = ustr ''system'' then ustr ''System: ''
      else if r = ustr ''user'' then ustr ''User: ''
      else ustr ''Assistant: '')"

definition spec_flatten :: "(pystr \<times> pystr) list \<Rightarrow> pystr" where
  "spec_flatten pairs =
     join blank_line (map (\<lambda>(r, c). spec_marker r @ c) (filter (\<lambda>(r, c). spec_known_role r) pairs))"

text \<open>A message as the pair of its role and its content, both present.\<close>

definition role_content :: "message \<Rightarrow> pystr \<times> pystr" where
  "role_content m = (the (m (ustr ''role'')), the (m (ustr ''content'')))"

text \<open>The reply the scripted model of the termination property gives.\<close>

definition approved_text :: pystr where
  "approved_text = ustr ''{'' @ [34] @ ustr ''approved'' @ [34] @ ustr '': true}''"

section \<open>Scripted collaborators for the examples\<close>

text \<open>A generation API that rejects a temperature outside the interval from 0 to 1.\<close>

definition range_checking_api :: vertex_api where
  "range_checking_api mid prompt config =
     (if 0 \<le> temperature config \<and> temperature config \<le> 1 then Inr (Some (ustr ''shalom olam''))
      else Inl (Exn ExternalError (ustr ''temperature out of range'')))"

text \<open>A generation API that always fails, as on a refused credential.\<close>

definition failing_api :: vertex_api where
  "failing_api mid prompt config = Inl (Exn ExternalError (ustr ''403 permission denied''))"

text \<open>A generation API that is interrupted from the keyboard during the call.\<close>

definition interrupted_api :: vertex_api where
  "interrupted_api mid prompt config = Inl (Exn KeyboardInterrupt [])"

text \<open>A chat model whose every reply is the same text that \<^verbatim>\<open>json.loads\<close> rejects.\<close>

definition garbage_env :: env where
  "garbage_env =
     \<lparr>llm_invoke = (\<lambda>prompt. Inr (ustr ''not json'')),
      json_loads = (\<lambda>s. None),
      py_repr = (\<lambda>v. [])\<rparr>"

text \<open>
  A chat model whose every reply is \<open>approved_text\<close>, with \<^verbatim>\<open>json.loads\<close> as far as
  that text and one more, which approves and names a successor, need it.
\<close>

definition approved_object :: "(pystr \<times> json) list" where
  "approved_object = [(ustr ''approved'', JBool True)]"

definition approved_coder_object :: "(pystr \<times> json) list" where
  "approved_coder_object =
     [(ustr ''review'', JString (ustr ''fine'')), (ustr ''approved'', JBool True),
      (ustr ''next_agent'', JString (ustr ''coder''))]"

definition approving_env :: env where
  "approving_env =
     \<lparr>llm_invoke = (\<lambda>prompt. Inr approved_text),
      json_loads =
        (\<lambda>s. if s = approved_text then Some (JObject approved_object)
             else if s = ustr ''approved, then coder'' then Some (JObject approved_coder_object)
             else None),
      py_repr = (\<lambda>v. [])\<rparr>"

text \<open>An integration whose provider has been initialised.\<close>

definition ready_integration :: integration where
  "ready_integration =
     new_integration\<lparr>vertex_provider := Some (new_provider (ustr ''lionspace'') (ustr ''us-east1''))\<rparr>"

section \<open>Properties of the Hebrew helpers\<close>

lemma py_any_iff: "py_any p xs \<longleftrightarrow> (\<exists>x\<in>set xs. p x)"
  by (induction xs) auto

text \<open>
  Claim C6. Both copies of the Hebrew detector return true exactly when some character of
  the text lies between U+0590 and U+05FF; on a text of ASCII characters only, and on the
  empty text, they return false.
\<close>

theorem contains_hebrew_iff:
  "(contains_hebrew text \<longleftrightarrow> (\<exists>c\<in>set text. 0x590 \<le> c \<and> c \<le> 0x5FF)) \<and>
   (dify_contains_hebrew text \<longleftrightarrow> (\<exists>c\<in>set text. 0x590 \<le> c \<and> c \<le> 0x5FF)) \<and>
   ((\<forall>c\<in>set text. c < 128) \<longrightarrow> \<not> contains_hebrew text \<and> \<not> dify_contains_hebrew text) \<and>
   \<not> contains_hebrew [] \<and> \<not> dify_contains_hebrew []"
  by (fastforce simp: contains_hebrew_def dify_contains_hebrew_def py_any_iff hebrew_char_def)

theorem contains_hebrew_iff_witness:
  "contains_hebrew (ustr ''ab'' @ [1488]) \<and> dify_contains_hebrew (ustr ''ab'' @ [1488]) \<and>
   list_all (\<lambda>c. c < 128) (ustr ''hello'') \<and>
   \<not> contains_hebrew (ustr ''hello'') \<and> \<not> dify_contains_hebrew (ustr ''hello'')"
  using contains_hebrew_iff [of "ustr ''ab'' @ [1488]"] contains_hebrew_iff [of "ustr ''hello''"]
  by (simp add: ustr_def)

lemma hebrew_instructions_length: "length hebrew_instructions = 89"
  by (simp add: hebrew_instructions_def)

text \<open>
  Claim C7. The enhancer is defined on every string. It puts the instruction block and a
  blank line before a prompt that contains a Hebrew character and a blank line and the
  block after any other prompt; the block is not empty, so the result contains the prompt
  as a substring and is strictly longer than it.
\<close>

theorem prepare_hebrew_prompt_total:
  "prepare_hebrew_prompt prompt =
     (if contains_hebrew prompt then hebrew_instructions @ [10, 10] @ prompt
      else prompt @ [10, 10] @ hebrew_instructions) \<and>
   hebrew_instructions \<noteq> [] \<and>
   sublist prompt (prepare_hebrew_prompt prompt) \<and>
   length prompt < length (prepare_hebrew_prompt prompt)"
proof -
  have ne: "hebrew_instructions \<noteq> []"
    using hebrew_instructions_length by auto
  have eq: "prepare_hebrew_prompt prompt =
     (if contains_hebrew prompt then hebrew_instructions @ [10, 10] @ prompt
      else prompt @ [10, 10] @ hebrew_instructions)"
    by (simp add: prepare_hebrew_prompt_def contains_hebrew_def blank_line_def)
  have sub: "sublist prompt (prepare_hebrew_prompt prompt)"
  proof (cases "contains_hebrew prompt")
    case True
    then have "prepare_hebrew_prompt prompt = (hebrew_instructions @ [10, 10]) @ prompt @ []"
      using eq by simp
    then show ?thesis unfolding sublist_def by blast
  next
    case False
    then have "prepare_hebrew_prompt prompt = [] @ prompt @ ([10, 10] @ hebrew_instructions)"
      using eq by simp
    then show ?thesis unfolding sublist_def by blast
  qed
  have len: "length prompt < length (prepare_hebrew_prompt prompt)"
    using eq by simp
  from eq ne sub len show ?thesis by blast
qed

section \<open>Properties of the message flattener\<close>

lemma messages_loop_acc:
  "messages_loop msgs acc = acc @ messages_loop msgs []"
proof (induction msgs arbitrary: acc)
  case Nil
  show ?case by simp
next
  case (Cons m ms)
  have a: "\<And>x. messages_loop ms (acc @ [x]) = acc @ messages_loop ms [x]"
    using Cons.IH[of "acc @ [_]"] Cons.IH[of "[_]"] by simp
  show ?case
    by (simp add: Let_def a Cons.IH[of acc])
qed

lemma role_literals_distinct:
  "ustr ''system'' \<noteq> ustr ''user''" "ustr ''system'' \<noteq> ustr ''assistant''"
  "ustr ''user'' \<noteq> ustr ''assistant''"
  by (simp_all add: ustr_def)

lemma messages_loop_spec:
  assumes "\<forall>m\<in>set msgs. m (ustr ''role'') \<noteq> None \<and> m (ustr ''content'') \<noteq> None"
  shows "messages_loop msgs [] =
           map (\<lambda>(r, c). spec_marker r @ c)
             (filter (\<lambda>(r, c). spec_known_role r) (map role_content msgs))"
  using assms
proof (induction msgs)
  case Nil
  show ?case by simp
next
  case (Cons m ms)
  from Cons.prems obtain r c
    where r: "m (ustr ''role'') = Some r" and c: "m (ustr ''content'') = Some c"
    by auto
  have rest: "messages_loop ms [] =
      map (\<lambda>(r, c). spec_marker r @ c)
        (filter (\<lambda>(r, c). spec_known_role r) (map role_content ms))"
    using Cons by simp
  have step: "messages_loop (m # ms) [] =
      (if spec_known_role r then [spec_marker r @ c] else []) @ messages_loop ms []"
    using role_literals_distinct
    by (simp add: Let_def dict_get_def r c spec_known_role_def spec_marker_def
          messages_loop_acc[of ms "[_]"])
  have "(if spec_known_role r then [spec_marker r @ c] else []) @ messages_loop ms [] =
      map (\<lambda>(r, c). spec_marker r @ c)
        (filter (\<lambda>(r, c). spec_known_role r) (map role_content (m # ms)))"
    by (simp add: rest role_content_def r c)
  with step show ?case by simp
qed

text \<open>
  Claim C8. For every list of messages that carry a role and a content, the flattener
  yields what the specification describes: the messages whose role is system, user or
  assistant, each as its marker followed by its content, in input order and joined by blank
  lines; a message with another role contributes nothing. The list of parts the loop
  builds is the list of retained messages in input order, so the markers keep that order.
\<close>

theorem messages_to_prompt_flattens:
  assumes "\<forall>m\<in>set msgs. m (ustr ''role'') \<noteq> None \<and> m (ustr ''content'') \<noteq> None"
  shows "messages_to_prompt msgs = spec_flatten (map role_content msgs) \<and>
         messages_loop msgs [] =
           map (\<lambda>(r, c). spec_marker r @ c)
             (filter (\<lambda>(r, c). spec_known_role r) (map role_content msgs))"
  using messages_loop_spec[OF assms]
  by (simp add: messages_to_prompt_def spec_flatten_def)

theorem messages_to_prompt_flattens_witness:
  "messages_to_prompt
     [[ustr ''role'' \<mapsto> ustr ''system'', ustr ''content'' \<mapsto> ustr ''a''],
      [ustr ''role'' \<mapsto> ustr ''tool'', ustr ''content'' \<mapsto> ustr ''x''],
      [ustr ''role'' \<mapsto> ustr ''user'', ustr ''content'' \<mapsto> ustr ''b''],
      [ustr ''role'' \<mapsto> ustr ''assistant'', ustr ''content'' \<mapsto> ustr ''c'']] =
   ustr ''System: a'' @ [10, 10] @ ustr ''User: b'' @ [10, 10] @ ustr ''Assistant: c''"
proof -
  let ?msgs = "[[ustr ''role'' \<mapsto> ustr ''system'', ustr ''content'' \<mapsto> ustr ''a''],
      [ustr ''role'' \<mapsto> ustr ''tool'', ustr ''content'' \<mapsto> ustr ''x''],
      [ustr ''role'' \<mapsto> ustr ''user'', ustr ''content'' \<mapsto> ustr ''b''],
      [ustr ''role'' \<mapsto> ustr ''assistant'', ustr ''content'' \<mapsto> ustr ''c'']]"
  have h: "\<forall>m\<in>set ?msgs. m (ustr ''role'') \<noteq> None \<and> m (ustr ''content'') \<noteq> None"
    by (simp add: ustr_def)
  have "messages_to_prompt ?msgs = spec_flatten (map role_content ?msgs)"
    using messages_to_prompt_flattens[OF h] by blast
  also have "\<dots> =
      ustr ''System: a'' @ [10, 10] @ ustr ''User: b'' @ [10, 10] @ ustr ''Assistant: c''"
    by (simp add: spec_flatten_def role_content_def spec_known_role_def spec_marker_def
          blank_line_def ustr_def)
  finally show ?thesis .
qed

section \<open>Properties of the model-call wrapper\<close>

lemma generate_response_registered:
  assumes "map_of (available_models self) model_name = Some cfg"
  shows "generate_response api self prompt model_name max_tokens temp enable_hebrew =
           (case api (mc_model_id cfg)
                   (if enable_hebrew then prepare_hebrew_prompt prompt else prompt)
                   (make_generation_config cfg max_tokens temp) of
              Inl e \<Rightarrow>
                if derives_from_exception (exn_kind e) then Inr (failure_result model_name e)
                else Inl e
            | Inr text \<Rightarrow> Inr (success_result self model_name cfg max_tokens temp text))"
  using assms
  by (simp add: generate_response_def generate_response_try_def Let_def split: sum.splits)

lemma registry_lookup:
  "map_of (available_models (new_provider pid loc)) (ustr ''gemini-pro'') = Some gemini_pro"
  "map_of (available_models (new_provider pid loc)) (ustr ''gemini-flash'') = Some gemini_flash"
  "map_of (available_models (new_provider pid loc)) (ustr ''gpt-4'') = None"
  by (simp_all add: new_provider_def init_available_models_def ustr_def)

text \<open>
  Claim C1, as the code has it. For a registered model the wrapper calls the generation API
  once, with a configuration whose maximum of output tokens is the smaller of the caller's
  value and the model's ceiling, whose temperature is the caller's value unchanged, and
  whose top-p and top-k are the constants 0.95 and 40. What the wrapper returns or raises
  is decided by the outcome of that one call.
\<close>

theorem generate_response_parameters:
  assumes "map_of (available_models self) model_name = Some cfg"
  shows "generate_response api self prompt model_name max_tokens temp enable_hebrew =
           (case api (mc_model_id cfg)
                   (if enable_hebrew then prepare_hebrew_prompt prompt else prompt)
                   \<lparr>max_output_tokens = min max_tokens (mc_max_tokens cfg),
                    temperature = temp, top_p = 95 / 100, top_k = 40\<rparr> of
              Inl e \<Rightarrow>
                if derives_from_exception (exn_kind e) then Inr (failure_result model_name e)
                else Inl e
            | Inr text \<Rightarrow> Inr (success_result self model_name cfg max_tokens temp text)) \<and>
         min max_tokens (mc_max_tokens cfg) \<le> mc_max_tokens cfg"
  using generate_response_registered[OF assms]
  by (simp add: make_generation_config_def)

theorem generate_response_parameters_witness:
  "generate_response
     (\<lambda>mid prompt config.
        if max_output_tokens config = 8192 \<and> top_p config = 95 / 100 \<and> top_k config = 40
        then Inr (Some (ustr ''two words'')) else Inr None)
     (new_provider (ustr ''lionspace'') (ustr ''us-east1'')) (ustr ''hello'') (ustr ''gemini-pro'')
     100000 (1 / 2) False =
   Inr (success_result (new_provider (ustr ''lionspace'') (ustr ''us-east1''))
          (ustr ''gemini-pro'') gemini_pro 100000 (1 / 2) (Some (ustr ''two words'')))"
  using generate_response_parameters[OF registry_lookup(1), of _ _ _ "ustr ''hello''" 100000 "1 / 2" False]
  by (simp add: gemini_pro_def)

text \<open>
  The claim as the specification states it fails: a temperature of 2 reaches the generation
  API as 2, and an API that refuses a temperature above 1 refuses the call.
\<close>

theorem temperature_not_clamped:
  "generate_response range_checking_api (new_provider (ustr ''lionspace'') (ustr ''us-east1''))
     (ustr ''hello'') (ustr ''gemini-pro'') 1024 2 True =
   Inr (failure_result (ustr ''gemini-pro'')
          (Exn ExternalError (ustr ''temperature out of range''))) \<and>
   temperature (make_generation_config gemini_pro 1024 2) = 2 \<and>
   \<not> temperature (make_generation_config gemini_pro 1024 2) \<le> 1"
  using generate_response_registered[OF registry_lookup(1), of range_checking_api _ _
          "ustr ''hello''" 1024 2 True]
  by (simp add: range_checking_api_def make_generation_config_def)

text \<open>
  Claim C2, as the code has it. The wrapper catches every exception of its \<^verbatim>\<open>try\<close>
  block that derives from \<^verbatim>\<open>Exception\<close> and returns a dictionary with success false,
  no response, and the text of the exception as error; an exception of another class
  leaves the wrapper. When the block raises nothing, the wrapper returns the success
  dictionary of the block. For a model name that is not in the registry the wrapper
  returns, and the error names the model and lists the registry's keys. A wrapper whose
  generation API raises only exceptions deriving from \<^verbatim>\<open>Exception\<close> never raises.
\<close>

theorem generate_response_catches_exceptions:
  "(\<forall>e. generate_response_try api self prompt model_name max_tokens temp enable_hebrew = Inl e \<and>
        derives_from_exception (exn_kind e) \<longrightarrow>
        (\<exists>r. generate_response api self prompt model_name max_tokens temp enable_hebrew = Inr r \<and>
           success r = False \<and> error r = Some (exn_str e) \<and> response r = None)) \<and>
   (\<forall>e. generate_response_try api self prompt model_name max_tokens temp enable_hebrew = Inl e \<and>
        \<not> derives_from_exception (exn_kind e) \<longrightarrow>
        generate_response api self prompt model_name max_tokens temp enable_hebrew = Inl e) \<and>
   (\<forall>r. generate_response_try api self prompt model_name max_tokens temp enable_hebrew = Inr r \<longrightarrow>
        generate_response api self prompt model_name max_tokens temp enable_hebrew = Inr r \<and>
        success r = True) \<and>
   (map_of (available_models self) model_name = None \<longrightarrow>
      (\<exists>r. generate_response api self prompt model_name max_tokens temp enable_hebrew = Inr r \<and>
         success r = False \<and> response r = None \<and>
         error r = Some (ustr ''Model '' @ model_name @ ustr '' not available. Choose from: '' @
                         keys_repr (map fst (available_models self))))) \<and>
   ((\<forall>mid p config e. api mid p config = Inl e \<longrightarrow> derives_from_exception (exn_kind e)) \<longrightarrow>
      (\<exists>r. generate_response api self prompt model_name max_tokens temp enable_hebrew = Inr r))"
proof -
  have caught: "\<forall>e. generate_response_try api self prompt model_name max_tokens temp
        enable_hebrew = Inl e \<and> derives_from_exception (exn_kind e) \<longrightarrow>
        (\<exists>r. generate_response api self prompt model_name max_tokens temp enable_hebrew = Inr r \<and>
           success r = False \<and> error r = Some (exn_str e) \<and> response r = None)"
    by (simp add: generate_response_def failure_result_def)
  have passed: "\<forall>e. generate_response_try api self prompt model_name max_tokens temp
        enable_hebrew = Inl e \<and> \<not> derives_from_exception (exn_kind e) \<longrightarrow>
        generate_response api self prompt model_name max_tokens temp enable_hebrew = Inl e"
    by (simp add: generate_response_def)
  have returned: "\<forall>r. generate_response_try api self prompt model_name max_tokens temp
        enable_hebrew = Inr r \<longrightarrow>
        generate_response api self prompt model_name max_tokens temp enable_hebrew = Inr r \<and>
        success r = True"
  proof (intro allI impI)
    fix r
    assume r: "generate_response_try api self prompt model_name max_tokens temp enable_hebrew =
        Inr r"
    then obtain cfg body where "r = success_result self model_name cfg max_tokens temp body"
      by (auto simp: generate_response_try_def Let_def split: option.splits sum.splits)
    then have "success r = True"
      by (simp add: success_result_def Let_def)
    with r show "generate_response api self prompt model_name max_tokens temp enable_hebrew =
        Inr r \<and> success r = True"
      by (simp add: generate_response_def)
  qed
  have unknown: "map_of (available_models self) model_name = None \<longrightarrow>
      (\<exists>r. generate_response api self prompt model_name max_tokens temp enable_hebrew = Inr r \<and>
         success r = False \<and> response r = None \<and>
         error r = Some (ustr ''Model '' @ model_name @ ustr '' not available. Choose from: '' @
                         keys_repr (map fst (available_models self))))"
    by (simp add: generate_response_def generate_response_try_def failure_result_def)
  have never: "(\<forall>mid p config e. api mid p config = Inl e \<longrightarrow>
        derives_from_exception (exn_kind e)) \<longrightarrow>
      (\<exists>r. generate_response api self prompt model_name max_tokens temp enable_hebrew = Inr r)"
  proof
    assume api: "\<forall>mid p config e. api mid p config = Inl e \<longrightarrow>
        derives_from_exception (exn_kind e)"
    show "\<exists>r. generate_response api self prompt model_name max_tokens temp enable_hebrew = Inr r"
    proof (cases "generate_response_try api self prompt model_name max_tokens temp enable_hebrew")
      case (Inr r)
      then show ?thesis by (simp add: generate_response_def)
    next
      case (Inl e)
      have "derives_from_exception (exn_kind e)"
      proof (cases "map_of (available_models self) model_name")
        case None
        with Inl show ?thesis
          by (auto simp: generate_response_try_def)
      next
        case (Some cfg)
        with Inl have "api (mc_model_id cfg)
            (if enable_hebrew then prepare_hebrew_prompt prompt else prompt)
            (make_generation_config cfg max_tokens temp) = Inl e"
          by (auto simp: generate_response_try_def Let_def split: sum.splits)
        with api show ?thesis by blast
      qed
      with Inl show ?thesis by (simp add: generate_response_def)
    qed
  qed
  from caught passed returned unknown never show ?thesis
    by (intro conjI)
qed

theorem generate_response_catches_exceptions_witness:
  "generate_response failing_api (new_provider (ustr ''lionspace'') (ustr ''us-east1''))
       (ustr ''hello'') (ustr ''gemini-pro'') 1024 (7 / 10) True =
     Inr (failure_result (ustr ''gemini-pro'') (Exn ExternalError (ustr ''403 permission denied''))) \<and>
   (case generate_response failing_api (new_provider (ustr ''lionspace'') (ustr ''us-east1''))
           (ustr ''hello'') (ustr ''gpt-4'') 1024 (7 / 10) True of
      Inl e \<Rightarrow> False
    | Inr r \<Rightarrow>
        success r = False \<and> response r = None \<and>
        error r = Some (ustr ''Model gpt-4 not available. Choose from: ['' @ [39] @
                        ustr ''gemini-pro'' @ [39] @ ustr '', '' @ [39] @ ustr ''gemini-flash'' @
                        [39] @ ustr '']''))"
proof -
  let ?p = "new_provider (ustr ''lionspace'') (ustr ''us-east1'')"
  note c = generate_response_catches_exceptions[of failing_api ?p "ustr ''hello''" _ 1024
      "7 / 10" True]
  have t: "generate_response_try failing_api ?p (ustr ''hello'') (ustr ''gemini-pro'') 1024
      (7 / 10) True = Inl (Exn ExternalError (ustr ''403 permission denied''))"
    by (simp add: generate_response_try_def registry_lookup(1) failing_api_def Let_def)
  have d: "derives_from_exception (exn_kind (Exn ExternalError (ustr ''403 permission denied'')))"
    by simp
  from c[of "ustr ''gemini-pro''"] t d
  obtain r1 where r1: "generate_response failing_api ?p (ustr ''hello'') (ustr ''gemini-pro'') 1024
      (7 / 10) True = Inr r1"
    by blast
  have first: "generate_response failing_api ?p (ustr ''hello'') (ustr ''gemini-pro'') 1024
      (7 / 10) True =
     Inr (failure_result (ustr ''gemini-pro'') (Exn ExternalError (ustr ''403 permission denied'')))"
    using r1 t by (simp add: generate_response_def)
  from c[of "ustr ''gpt-4''"] registry_lookup(3)[of "ustr ''lionspace''" "ustr ''us-east1''"]
  obtain r where r: "generate_response failing_api ?p (ustr ''hello'') (ustr ''gpt-4'') 1024
        (7 / 10) True = Inr r"
    and e: "success r = False \<and> response r = None \<and>
        error r = Some (ustr ''Model '' @ ustr ''gpt-4'' @ ustr '' not available. Choose from: '' @
                        keys_repr (map fst (available_models ?p)))"
    by blast
  have k: "keys_repr (map fst (available_models ?p)) =
      ustr ''['' @ [39] @ ustr ''gemini-pro'' @ [39] @ ustr '', '' @ [39] @ ustr ''gemini-flash'' @
      [39] @ ustr '']''"
    by (simp add: keys_repr_def new_provider_def init_available_models_def)
  from e[unfolded k]
  have "success r = False \<and> response r = None \<and>
      error r = Some (ustr ''Model gpt-4 not available. Choose from: ['' @ [39] @
                      ustr ''gemini-pro'' @ [39] @ ustr '', '' @ [39] @ ustr ''gemini-flash'' @
                      [39] @ ustr '']'')"
    by (simp add: ustr_def)
  then have second: "(case generate_response failing_api ?p (ustr ''hello'') (ustr ''gpt-4'') 1024
        (7 / 10) True of
      Inl e \<Rightarrow> False
    | Inr r \<Rightarrow>
        success r = False \<and> response r = None \<and>
        error r = Some (ustr ''Model gpt-4 not available. Choose from: ['' @ [39] @
                        ustr ''gemini-pro'' @ [39] @ ustr '', '' @ [39] @ ustr ''gemini-flash'' @
                        [39] @ ustr '']''))"
    by (simp add: r)
  from first second show ?thesis by (rule conjI)
qed

text \<open>
  The claim as the specification states it fails: an interrupt from the keyboard during the
  call of the generation API is no \<^verbatim>\<open>Exception\<close>, and the wrapper raises it to its
  caller.
\<close>

theorem keyboard_interrupt_escapes:
  "generate_response interrupted_api (new_provider (ustr ''lionspace'') (ustr ''us-east1''))
     (ustr ''hello'') (ustr ''gemini-pro'') 1024 (7 / 10) True =
   Inl (Exn KeyboardInterrupt [])"
  using generate_response_registered[OF registry_lookup(1), of interrupted_api _ _
          "ustr ''hello''" 1024 "7 / 10" True]
  by (simp add: interrupted_api_def)

section \<open>Properties of the agent router\<close>

lemma agent_literals_distinct:
  "ustr ''planner'' \<noteq> ustr ''researcher''" "ustr ''planner'' \<noteq> ustr ''coder''"
  "ustr ''planner'' \<noteq> ustr ''reviewer''" "ustr ''researcher'' \<noteq> ustr ''coder''"
  "ustr ''researcher'' \<noteq> ustr ''reviewer''" "ustr ''coder'' \<noteq> ustr ''reviewer''"
  "ustr ''END'' \<noteq> ustr ''planner''" "ustr ''END'' \<noteq> ustr ''researcher''"
  "ustr ''END'' \<noteq> ustr ''coder''" "ustr ''END'' \<noteq> ustr ''reviewer''"
  by (simp_all add: ustr_def)

lemma agents_lookup:
  "map_of (agents ev) (ustr ''planner'') = Some (planner_logic ev)"
  "map_of (agents ev) (ustr ''researcher'') = Some (researcher_logic ev)"
  "map_of (agents ev) (ustr ''coder'') = Some (coder_logic ev)"
  "map_of (agents ev) (ustr ''reviewer'') = Some (reviewer_logic ev)"
  "map_of (agents ev) (ustr ''END'') = None"
  using agent_literals_distinct by (simp_all add: agents_def)

lemma route_next_string:
  "next_agent st = JString (ustr ''researcher'') \<Longrightarrow> route_next ev st = Inr (Node (ustr ''researcher''))"
  "next_agent st = JString (ustr ''coder'') \<Longrightarrow> route_next ev st = Inr (Node (ustr ''coder''))"
  "next_agent st = JString (ustr ''reviewer'') \<Longrightarrow> route_next ev st = Inr (Node (ustr ''reviewer''))"
  "next_agent st = JString (ustr ''END'') \<Longrightarrow> route_next ev st = Inr End"
  by (simp_all add: route_next_def agents_lookup)

text \<open>
  The path map sends the names of the three steps that follow another to themselves and has
  no entry for the constant \<^verbatim>\<open>END\<close>.
\<close>

lemma path_map_lookup:
  "path_map ev (ustr ''researcher'') = Some (ustr ''researcher'')"
  "path_map ev (ustr ''coder'') = Some (ustr ''coder'')"
  "path_map ev (ustr ''reviewer'') = Some (ustr ''reviewer'')"
  "path_map ev end_constant = None"
  "path_map ev (ustr ''END'') = Some end_constant"
  by (simp_all add: path_map_def agents_def end_constant_def map_add_def ustr_def)

lemma names_not_end:
  "ustr ''researcher'' \<noteq> end_constant" "ustr ''coder'' \<noteq> end_constant"
  "ustr ''reviewer'' \<noteq> end_constant"
  by (simp_all add: end_constant_def ustr_def)

lemma run_graph_round:
  assumes "map_of (agents ev) node = Some step" and "step state = Inr upd"
  shows "route_next ev (merge_update state upd) = Inr (Node successor) \<Longrightarrow>
           path_map ev successor = Some successor \<Longrightarrow> successor \<noteq> end_constant \<Longrightarrow>
           run_graph (Suc fuel) ev node state visited =
             run_graph fuel ev successor (merge_update state upd) (visited @ [node])"
    and "route_next ev (merge_update state upd) = Inr End \<Longrightarrow>
           run_graph (Suc fuel) ev node state visited =
             Some (Inl (key_error end_constant), visited @ [node], merge_update state upd)"
  using assms by (simp_all add: Let_def path_map_lookup(4))

lemma next_agent_merge:
  "up_next_agent upd = Some s \<Longrightarrow> next_agent (merge_update st upd) = s"
  by (simp add: merge_update_def)

text \<open>
  The rounds of a run whose planner, researcher and coder each name the step after them:
  each round uses one unit of the bound.
\<close>

lemma three_rounds:
  assumes u1: "planner_logic ev s0 = Inr u1"
      "up_next_agent u1 = Some (JString (ustr ''researcher''))"
    and u2: "researcher_logic ev (merge_update s0 u1) = Inr u2"
      "up_next_agent u2 = Some (JString (ustr ''coder''))"
    and u3: "coder_logic ev (merge_update (merge_update s0 u1) u2) = Inr u3"
      "up_next_agent u3 = Some (JString (ustr ''reviewer''))"
  shows "run_graph (Suc fuel) ev (ustr ''planner'') s0 visited =
           run_graph fuel ev (ustr ''researcher'') (merge_update s0 u1) (visited @ [ustr ''planner''])"
    and "run_graph (Suc fuel) ev (ustr ''researcher'') (merge_update s0 u1) vis1 =
           run_graph fuel ev (ustr ''coder'') (merge_update (merge_update s0 u1) u2)
             (vis1 @ [ustr ''researcher''])"
    and "run_graph (Suc fuel) ev (ustr ''coder'') (merge_update (merge_update s0 u1) u2) vis2 =
           run_graph fuel ev (ustr ''reviewer'')
             (merge_update (merge_update (merge_update s0 u1) u2) u3) (vis2 @ [ustr ''coder''])"
proof -
  show "run_graph (Suc fuel) ev (ustr ''planner'') s0 visited =
           run_graph fuel ev (ustr ''researcher'') (merge_update s0 u1) (visited @ [ustr ''planner''])"
    by (rule run_graph_round(1)[OF agents_lookup(1) u1(1)])
       (simp_all add: route_next_string next_agent_merge[OF u1(2)] path_map_lookup names_not_end)
  show "run_graph (Suc fuel) ev (ustr ''researcher'') (merge_update s0 u1) vis1 =
           run_graph fuel ev (ustr ''coder'') (merge_update (merge_update s0 u1) u2)
             (vis1 @ [ustr ''researcher''])"
    by (rule run_graph_round(1)[OF agents_lookup(2) u2(1)])
       (simp_all add: route_next_string next_agent_merge[OF u2(2)] path_map_lookup names_not_end)
  show "run_graph (Suc fuel) ev (ustr ''coder'') (merge_update (merge_update s0 u1) u2) vis2 =
           run_graph fuel ev (ustr ''reviewer'')
             (merge_update (merge_update (merge_update s0 u1) u2) u3) (vis2 @ [ustr ''coder''])"
    by (rule run_graph_round(1)[OF agents_lookup(3) u3(1)])
       (simp_all add: route_next_string next_agent_merge[OF u3(2)] path_map_lookup names_not_end)
qed

lemma four_rounds:
  assumes u1: "planner_logic ev s0 = Inr u1"
      "up_next_agent u1 = Some (JString (ustr ''researcher''))"
    and u2: "researcher_logic ev (merge_update s0 u1) = Inr u2"
      "up_next_agent u2 = Some (JString (ustr ''coder''))"
    and u3: "coder_logic ev (merge_update (merge_update s0 u1) u2) = Inr u3"
      "up_next_agent u3 = Some (JString (ustr ''reviewer''))"
    and u4: "reviewer_logic ev (merge_update (merge_update (merge_update s0 u1) u2) u3) = Inr u4"
      "up_next_agent u4 = Some (JString (ustr ''END''))"
  shows "4 \<le> fuel \<Longrightarrow> run_graph fuel ev (ustr ''planner'') s0 [] =
           Some (Inl (key_error end_constant),
             [ustr ''planner'', ustr ''researcher'', ustr ''coder'', ustr ''reviewer''],
             merge_update (merge_update (merge_update (merge_update s0 u1) u2) u3) u4)"
    and "fuel < 4 \<Longrightarrow> run_graph fuel ev (ustr ''planner'') s0 [] = None"
proof -
  note r = three_rounds[OF u1 u2 u3]
  have last: "\<And>k vis. run_graph (Suc k) ev (ustr ''reviewer'')
      (merge_update (merge_update (merge_update s0 u1) u2) u3) vis =
      Some (Inl (key_error end_constant), vis @ [ustr ''reviewer''],
        merge_update (merge_update (merge_update (merge_update s0 u1) u2) u3) u4)"
    by (rule run_graph_round(2)[OF agents_lookup(4) u4(1)])
       (simp add: route_next_string next_agent_merge[OF u4(2)])
  {
    assume "4 \<le> fuel"
    then have "fuel = Suc (Suc (Suc (Suc (fuel - 4))))"
      by simp
    then obtain k where k: "fuel = Suc (Suc (Suc (Suc k)))" ..
    have "run_graph (Suc (Suc (Suc (Suc k)))) ev (ustr ''planner'') s0 [] =
        run_graph (Suc (Suc (Suc k))) ev (ustr ''researcher'') (merge_update s0 u1)
          ([] @ [ustr ''planner''])"
      by (rule r(1))
    also have "\<dots> = run_graph (Suc (Suc k)) ev (ustr ''coder'') (merge_update (merge_update s0 u1) u2)
          (([] @ [ustr ''planner'']) @ [ustr ''researcher''])"
      by (rule r(2))
    also have "\<dots> = run_graph (Suc k) ev (ustr ''reviewer'')
          (merge_update (merge_update (merge_update s0 u1) u2) u3)
          ((([] @ [ustr ''planner'']) @ [ustr ''researcher'']) @ [ustr ''coder''])"
      by (rule r(3))
    also have "\<dots> = Some (Inl (key_error end_constant),
          (((([] @ [ustr ''planner'']) @ [ustr ''researcher'']) @ [ustr ''coder'']) @
            [ustr ''reviewer'']),
          merge_update (merge_update (merge_update (merge_update s0 u1) u2) u3) u4)"
      by (rule last)
    finally show "run_graph fuel ev (ustr ''planner'') s0 [] =
           Some (Inl (key_error end_constant),
             [ustr ''planner'', ustr ''researcher'', ustr ''coder'', ustr ''reviewer''],
             merge_update (merge_update (merge_update (merge_update s0 u1) u2) u3) u4)"
      unfolding k by simp
  }
  {
    assume "fuel < 4"
    then consider "fuel = 0" | "fuel = Suc 0" | "fuel = Suc (Suc 0)" | "fuel = Suc (Suc (Suc 0))"
      by linarith
    then show "run_graph fuel ev (ustr ''planner'') s0 [] = None"
    proof cases
      case 1
      then show ?thesis by simp
    next
      case 2
      have "run_graph (Suc 0) ev (ustr ''planner'') s0 [] =
          run_graph 0 ev (ustr ''researcher'') (merge_update s0 u1) ([] @ [ustr ''planner''])"
        by (rule r(1))
      with 2 show ?thesis by simp
    next
      case 3
      have "run_graph (Suc (Suc 0)) ev (ustr ''planner'') s0 [] =
          run_graph (Suc 0) ev (ustr ''researcher'') (merge_update s0 u1) ([] @ [ustr ''planner''])"
        by (rule r(1))
      also have "\<dots> = run_graph 0 ev (ustr ''coder'') (merge_update (merge_update s0 u1) u2)
          (([] @ [ustr ''planner'']) @ [ustr ''researcher''])"
        by (rule r(2))
      finally show ?thesis using 3 by simp
    next
      case 4
      have "run_graph (Suc (Suc (Suc 0))) ev (ustr ''planner'') s0 [] =
          run_graph (Suc (Suc 0)) ev (ustr ''researcher'') (merge_update s0 u1)
            ([] @ [ustr ''planner''])"
        by (rule r(1))
      also have "\<dots> = run_graph (Suc 0) ev (ustr ''coder'') (merge_update (merge_update s0 u1) u2)
          (([] @ [ustr ''planner'']) @ [ustr ''researcher''])"
        by (rule r(2))
      also have "\<dots> = run_graph 0 ev (ustr ''reviewer'')
          (merge_update (merge_update (merge_update s0 u1) u2) u3)
          ((([] @ [ustr ''planner'']) @ [ustr ''researcher'']) @ [ustr ''coder''])"
        by (rule r(3))
      finally show ?thesis using 4 by simp
    qed
  }
qed

lemma fallback_steps:
  assumes "json_loads ev reply = None"
  shows "llm_invoke ev (planner_prompt state) = Inr reply \<Longrightarrow>
           planner_logic ev state = Inr (fallback_update state reply (ustr ''researcher''))"
    and "llm_invoke ev (researcher_prompt ev state) = Inr reply \<Longrightarrow>
           researcher_logic ev state = Inr (fallback_update state reply (ustr ''coder''))"
    and "llm_invoke ev (coder_prompt ev state) = Inr reply \<Longrightarrow>
           coder_logic ev state = Inr (fallback_update state reply (ustr ''reviewer''))"
    and "llm_invoke ev (reviewer_prompt ev state) = Inr reply \<Longrightarrow>
           reviewer_logic ev state = Inr (fallback_update state reply (ustr ''END''))"
  using assms
  by (simp_all add: planner_logic_def researcher_logic_def coder_logic_def reviewer_logic_def)

lemma merge_fallback:
  "next_agent (merge_update state (fallback_update state reply successor)) = JString successor"
  "messages (merge_update state (fallback_update state reply successor)) =
     messages state @ [AIMessage reply]"
  by (simp_all add: merge_update_def fallback_update_def)

lemma run_of_run_graph:
  "run_graph fuel ev (ustr ''planner'') (initial_state user_input) [] =
     Some (Inl (key_error k), visited, reached) \<Longrightarrow>
   run fuel ev user_input =
     Some (Failed (exn_str (key_error k)) [AIMessage (error_prefix @ exn_str (key_error k))],
           visited)"
  "run_graph fuel ev (ustr ''planner'') (initial_state user_input) [] = None \<Longrightarrow>
   run fuel ev user_input = None"
  by (simp_all add: run_def key_error_def)

text \<open>
  Claim C3, with what the code does at the end of the run. In each of the four steps, a
  reply that \<^verbatim>\<open>json.loads\<close> rejects makes the step return normally, with the update of
  its \<^verbatim>\<open>except\<close> branch: the reply appended to the history, the context unchanged, no
  error entry, and the fixed successor as next step (researcher after the planner, coder
  after the researcher, reviewer after the coder, END after the reviewer). When every reply
  is rejected, a run goes through planner, researcher, coder and reviewer once each, in four
  rounds and no fewer, and reaches a state with the four replies appended and END as next
  step. There \<^verbatim>\<open>route_next\<close> returns the constant \<^verbatim>\<open>END\<close>, which is no key of the
  path map, so the edge raises \<^verbatim>\<open>KeyError\<close> and \<^verbatim>\<open>run\<close> returns the dictionary of
  its \<^verbatim>\<open>except\<close> branch in place of that state.
\<close>

theorem invalid_json_falls_back:
  "(json_loads ev reply = None \<longrightarrow>
      (llm_invoke ev (planner_prompt state) = Inr reply \<longrightarrow>
         planner_logic ev state = Inr (fallback_update state reply (ustr ''researcher''))) \<and>
      (llm_invoke ev (researcher_prompt ev state) = Inr reply \<longrightarrow>
         researcher_logic ev state = Inr (fallback_update state reply (ustr ''coder''))) \<and>
      (llm_invoke ev (coder_prompt ev state) = Inr reply \<longrightarrow>
         coder_logic ev state = Inr (fallback_update state reply (ustr ''reviewer''))) \<and>
      (llm_invoke ev (reviewer_prompt ev state) = Inr reply \<longrightarrow>
         reviewer_logic ev state = Inr (fallback_update state reply (ustr ''END'')))) \<and>
   up_next_agent (fallback_update state reply successor) = Some (JString successor) \<and>
   next_agent (merge_update state (fallback_update state reply successor)) = JString successor \<and>
   ((\<forall>prompt. \<exists>rep. llm_invoke ev prompt = Inr rep \<and> json_loads ev rep = None) \<longrightarrow>
      (\<exists>r1 r2 r3 r4. \<forall>fuel.
         (4 \<le> fuel \<longrightarrow>
            run_graph fuel ev (ustr ''planner'') (initial_state user_input) [] =
              Some (Inl (key_error end_constant),
                [ustr ''planner'', ustr ''researcher'', ustr ''coder'', ustr ''reviewer''],
                \<lparr>messages = [HumanMessage user_input, AIMessage r1, AIMessage r2, AIMessage r3,
                              AIMessage r4],
                 current_task = JString user_input,
                 completed_tasks = [],
                 context_dict = [],
                 next_agent = JString (ustr ''END'')\<rparr>) \<and>
            run fuel ev user_input =
              Some (Failed (exn_str (key_error end_constant))
                      [AIMessage (error_prefix @ exn_str (key_error end_constant))],
                    [ustr ''planner'', ustr ''researcher'', ustr ''coder'', ustr ''reviewer''])) \<and>
         (fuel < 4 \<longrightarrow> run fuel ev user_input = None)))"
proof -
  have steps: "json_loads ev reply = None \<longrightarrow>
      (llm_invoke ev (planner_prompt state) = Inr reply \<longrightarrow>
         planner_logic ev state = Inr (fallback_update state reply (ustr ''researcher''))) \<and>
      (llm_invoke ev (researcher_prompt ev state) = Inr reply \<longrightarrow>
         researcher_logic ev state = Inr (fallback_update state reply (ustr ''coder''))) \<and>
      (llm_invoke ev (coder_prompt ev state) = Inr reply \<longrightarrow>
         coder_logic ev state = Inr (fallback_update state reply (ustr ''reviewer''))) \<and>
      (llm_invoke ev (reviewer_prompt ev state) = Inr reply \<longrightarrow>
         reviewer_logic ev state = Inr (fallback_update state reply (ustr ''END'')))"
    by (simp add: fallback_steps)
  have sel: "up_next_agent (fallback_update state reply successor) = Some (JString successor)"
    by (simp add: fallback_update_def)
  have mrg: "next_agent (merge_update state (fallback_update state reply successor)) =
      JString successor"
    by (simp add: merge_update_def fallback_update_def)
  have runs: "(\<forall>prompt. \<exists>rep. llm_invoke ev prompt = Inr rep \<and> json_loads ev rep = None) \<longrightarrow>
      (\<exists>r1 r2 r3 r4. \<forall>fuel.
         (4 \<le> fuel \<longrightarrow>
            run_graph fuel ev (ustr ''planner'') (initial_state user_input) [] =
              Some (Inl (key_error end_constant),
                [ustr ''planner'', ustr ''researcher'', ustr ''coder'', ustr ''reviewer''],
                \<lparr>messages = [HumanMessage user_input, AIMessage r1, AIMessage r2, AIMessage r3,
                              AIMessage r4],
                 current_task = JString user_input,
                 completed_tasks = [],
                 context_dict = [],
                 next_agent = JString (ustr ''END'')\<rparr>) \<and>
            run fuel ev user_input =
              Some (Failed (exn_str (key_error end_constant))
                      [AIMessage (error_prefix @ exn_str (key_error end_constant))],
                    [ustr ''planner'', ustr ''researcher'', ustr ''coder'', ustr ''reviewer''])) \<and>
         (fuel < 4 \<longrightarrow> run fuel ev user_input = None))"
  proof
    assume all: "\<forall>prompt. \<exists>rep. llm_invoke ev prompt = Inr rep \<and> json_loads ev rep = None"
    define s0 where "s0 = initial_state user_input"
    from all obtain r1 where r1: "llm_invoke ev (planner_prompt s0) = Inr r1"
      "json_loads ev r1 = None" by blast
    define u1 where "u1 = fallback_update s0 r1 (ustr ''researcher'')"
    define s1 where "s1 = merge_update s0 u1"
    from all obtain r2 where r2: "llm_invoke ev (researcher_prompt ev s1) = Inr r2"
      "json_loads ev r2 = None" by blast
    define u2 where "u2 = fallback_update s1 r2 (ustr ''coder'')"
    define s2 where "s2 = merge_update s1 u2"
    from all obtain r3 where r3: "llm_invoke ev (coder_prompt ev s2) = Inr r3"
      "json_loads ev r3 = None" by blast
    define u3 where "u3 = fallback_update s2 r3 (ustr ''reviewer'')"
    define s3 where "s3 = merge_update s2 u3"
    from all obtain r4 where r4: "llm_invoke ev (reviewer_prompt ev s3) = Inr r4"
      "json_loads ev r4 = None" by blast
    define u4 where "u4 = fallback_update s3 r4 (ustr ''END'')"
    have p: "planner_logic ev s0 = Inr u1"
      "up_next_agent u1 = Some (JString (ustr ''researcher''))"
      unfolding u1_def by (simp_all add: fallback_steps(1)[OF r1(2) r1(1)] fallback_update_def)
    have r: "researcher_logic ev (merge_update s0 u1) = Inr u2"
      "up_next_agent u2 = Some (JString (ustr ''coder''))"
      unfolding u2_def s1_def[symmetric]
      by (simp_all add: fallback_steps(2)[OF r2(2) r2(1)] fallback_update_def)
    have c: "coder_logic ev (merge_update (merge_update s0 u1) u2) = Inr u3"
      "up_next_agent u3 = Some (JString (ustr ''reviewer''))"
      unfolding u3_def s1_def[symmetric] s2_def[symmetric]
      by (simp_all add: fallback_steps(3)[OF r3(2) r3(1)] fallback_update_def)
    have v: "reviewer_logic ev (merge_update (merge_update (merge_update s0 u1) u2) u3) = Inr u4"
      "up_next_agent u4 = Some (JString (ustr ''END''))"
      unfolding u4_def s1_def[symmetric] s2_def[symmetric] s3_def[symmetric]
      by (simp_all add: fallback_steps(4)[OF r4(2) r4(1)] fallback_update_def)
    have final: "merge_update (merge_update (merge_update (merge_update s0 u1) u2) u3) u4 =
        \<lparr>messages = [HumanMessage user_input, AIMessage r1, AIMessage r2, AIMessage r3,
                      AIMessage r4],
         current_task = JString user_input,
         completed_tasks = [],
         context_dict = [],
         next_agent = JString (ustr ''END'')\<rparr>"
      unfolding s1_def[symmetric] s2_def[symmetric] s3_def[symmetric]
      by (simp add: s1_def s2_def s3_def u1_def u2_def u3_def u4_def s0_def merge_update_def
            fallback_update_def initial_state_def)
    note four = four_rounds[OF p r c v, unfolded final, unfolded s0_def]
    have "\<forall>fuel.
         (4 \<le> fuel \<longrightarrow>
            run_graph fuel ev (ustr ''planner'') (initial_state user_input) [] =
              Some (Inl (key_error end_constant),
                [ustr ''planner'', ustr ''researcher'', ustr ''coder'', ustr ''reviewer''],
                \<lparr>messages = [HumanMessage user_input, AIMessage r1, AIMessage r2, AIMessage r3,
                              AIMessage r4],
                 current_task = JString user_input,
                 completed_tasks = [],
                 context_dict = [],
                 next_agent = JString (ustr ''END'')\<rparr>) \<and>
            run fuel ev user_input =
              Some (Failed (exn_str (key_error end_constant))
                      [AIMessage (error_prefix @ exn_str (key_error end_constant))],
                    [ustr ''planner'', ustr ''researcher'', ustr ''coder'', ustr ''reviewer''])) \<and>
         (fuel < 4 \<longrightarrow> run fuel ev user_input = None)"
      using four run_of_run_graph by blast
    then show "\<exists>r1 r2 r3 r4. \<forall>fuel.
         (4 \<le> fuel \<longrightarrow>
            run_graph fuel ev (ustr ''planner'') (initial_state user_input) [] =
              Some (Inl (key_error end_constant),
                [ustr ''planner'', ustr ''researcher'', ustr ''coder'', ustr ''reviewer''],
                \<lparr>messages = [HumanMessage user_input, AIMessage r1, AIMessage r2, AIMessage r3,
                              AIMessage r4],
                 current_task = JString user_input,
                 completed_tasks = [],
                 context_dict = [],
                 next_agent = JString (ustr ''END'')\<rparr>) \<and>
            run fuel ev user_input =
              Some (Failed (exn_str (key_error end_constant))
                      [AIMessage (error_prefix @ exn_str (key_error end_constant))],
                    [ustr ''planner'', ustr ''researcher'', ustr ''coder'', ustr ''reviewer''])) \<and>
         (fuel < 4 \<longrightarrow> run fuel ev user_input = None)"
      by blast
  qed
  from steps sel mrg runs show ?thesis
    by (intro conjI)
qed

lemma garbage_env_sel:
  "llm_invoke garbage_env prompt = Inr (ustr ''not json'')" "json_loads garbage_env s = None"
  by (simp_all add: garbage_env_def)

theorem invalid_json_falls_back_witness:
  "planner_logic garbage_env (initial_state (ustr ''hi'')) =
     Inr (fallback_update (initial_state (ustr ''hi'')) (ustr ''not json'') (ustr ''researcher'')) \<and>
   run 4 garbage_env (ustr ''hi'') =
     Some (Failed ([39] @ ustr ''__end__'' @ [39])
             [AIMessage (error_prefix @ [39] @ ustr ''__end__'' @ [39])],
           [ustr ''planner'', ustr ''researcher'', ustr ''coder'', ustr ''reviewer'']) \<and>
   run 3 garbage_env (ustr ''hi'') = None"
proof -
  note t = invalid_json_falls_back[of garbage_env "ustr ''not json''" "initial_state (ustr ''hi'')"
          "ustr ''END''" "ustr ''hi''"]
  have h: "\<forall>prompt. \<exists>rep. llm_invoke garbage_env prompt = Inr rep \<and> json_loads garbage_env rep = None"
    by (simp add: garbage_env_sel)
  from t have 1: "planner_logic garbage_env (initial_state (ustr ''hi'')) =
     Inr (fallback_update (initial_state (ustr ''hi'')) (ustr ''not json'') (ustr ''researcher''))"
    by (simp add: garbage_env_sel)
  from t h obtain r1 r2 r3 r4 where f: "\<forall>fuel.
         (4 \<le> fuel \<longrightarrow>
            run_graph fuel garbage_env (ustr ''planner'') (initial_state (ustr ''hi'')) [] =
              Some (Inl (key_error end_constant),
                [ustr ''planner'', ustr ''researcher'', ustr ''coder'', ustr ''reviewer''],
                \<lparr>messages = [HumanMessage (ustr ''hi''), AIMessage r1, AIMessage r2, AIMessage r3,
                              AIMessage r4],
                 current_task = JString (ustr ''hi''),
                 completed_tasks = [],
                 context_dict = [],
                 next_agent = JString (ustr ''END'')\<rparr>) \<and>
            run fuel garbage_env (ustr ''hi'') =
              Some (Failed (exn_str (key_error end_constant))
                      [AIMessage (error_prefix @ exn_str (key_error end_constant))],
                    [ustr ''planner'', ustr ''researcher'', ustr ''coder'', ustr ''reviewer''])) \<and>
         (fuel < 4 \<longrightarrow> run fuel garbage_env (ustr ''hi'') = None)"
    by blast
  from f[rule_format, of 4] have 2: "run 4 garbage_env (ustr ''hi'') =
     Some (Failed ([39] @ ustr ''__end__'' @ [39])
             [AIMessage (error_prefix @ [39] @ ustr ''__end__'' @ [39])],
           [ustr ''planner'', ustr ''researcher'', ustr ''coder'', ustr ''reviewer''])"
    by (simp add: key_error_def end_constant_def)
  from f[rule_format, of 3] have 3: "run 3 garbage_env (ustr ''hi'') = None"
    by simp
  from 1 2 3 show ?thesis by (intro conjI)
qed

lemma key_literals_distinct:
  "ustr ''approved'' \<noteq> ustr ''next_agent''" "ustr ''approved'' \<noteq> ustr ''instructions''"
  "ustr ''approved'' \<noteq> ustr ''plan''"
  by (simp_all add: ustr_def)

text \<open>
  Claim C4. In the review step, a reply that parses to an object whose \<^verbatim>\<open>approved\<close> is
  true sets the next step to END whatever the object holds under \<^verbatim>\<open>next_agent\<close>, and
  the edge after the step then ends the run.
\<close>

theorem reviewer_approved_ends:
  assumes "llm_invoke ev (reviewer_prompt ev state) = Inr reply"
    and "json_loads ev reply = Some (JObject result)"
    and "map_of result (ustr ''approved'') = Some (JBool True)"
  shows "\<exists>upd. reviewer_logic ev state = Inr upd \<and>
           up_next_agent upd = Some (JString (ustr ''END'')) \<and>
           next_agent (merge_update state upd) = JString (ustr ''END'') \<and>
           route_next ev (merge_update state upd) = Inr End"
  using assms
  by (simp add: reviewer_logic_def obj_get_def Let_def merge_update_def route_next_def
        agents_lookup)

theorem reviewer_approved_ends_witness:
  "\<exists>upd. reviewer_logic
           (approving_env\<lparr>llm_invoke := (\<lambda>prompt. Inr (ustr ''approved, then coder''))\<rparr>)
           (initial_state (ustr ''hi'')) = Inr upd \<and>
         map_of approved_coder_object (ustr ''next_agent'') = Some (JString (ustr ''coder'')) \<and>
         up_next_agent upd = Some (JString (ustr ''END''))"
proof -
  let ?ev = "approving_env\<lparr>llm_invoke := (\<lambda>prompt. Inr (ustr ''approved, then coder''))\<rparr>"
  have ne: "ustr ''approved, then coder'' \<noteq> approved_text"
    by (simp add: approved_text_def ustr_def)
  have 1: "llm_invoke ?ev (reviewer_prompt ?ev (initial_state (ustr ''hi''))) =
      Inr (ustr ''approved, then coder'')"
    by simp
  have 2: "json_loads ?ev (ustr ''approved, then coder'') = Some (JObject approved_coder_object)"
    using ne by (simp add: approving_env_def)
  have 3: "map_of approved_coder_object (ustr ''approved'') = Some (JBool True)"
    by (simp add: approved_coder_object_def ustr_def)
  have 4: "map_of approved_coder_object (ustr ''next_agent'') = Some (JString (ustr ''coder''))"
    by (simp add: approved_coder_object_def ustr_def)
  from reviewer_approved_ends[OF 1 2 3] 4 show ?thesis by blast
qed

lemma approved_steps:
  assumes l: "\<forall>prompt. llm_invoke ev prompt = Inr approved_text"
    and j: "json_loads ev approved_text = Some (JObject [(ustr ''approved'', JBool True)])"
  shows "planner_logic ev st =
           Inr \<lparr>up_messages = Some (messages st @ [AIMessage approved_text]),
                up_current_task = Some (JString []),
                up_completed_tasks = None,
                up_next_agent = Some (JString (ustr ''researcher'')),
                up_context = Some (AList.update (ustr ''plan'') (JArray []) (context_dict st))\<rparr>"
    and "researcher_logic ev st =
           Inr \<lparr>up_messages = Some (messages st @ [AIMessage approved_text]),
                up_current_task = None,
                up_completed_tasks = Some (completed_tasks st @ [current_task st]),
                up_next_agent = Some (JString (ustr ''coder'')),
                up_context = Some (AList.update (ustr ''research'')
                  (JObject [(ustr ''approved'', JBool True)]) (context_dict st))\<rparr>"
    and "coder_logic ev st =
           Inr \<lparr>up_messages = Some (messages st @ [AIMessage approved_text]),
                up_current_task = None,
                up_completed_tasks = Some (completed_tasks st @ [current_task st]),
                up_next_agent = Some (JString (ustr ''reviewer'')),
                up_context = Some (AList.update (ustr ''code'')
                  (JObject [(ustr ''approved'', JBool True)]) (context_dict st))\<rparr>"
    and "reviewer_logic ev st =
           Inr \<lparr>up_messages = Some (messages st @ [AIMessage approved_text]),
                up_current_task = None,
                up_completed_tasks = Some (completed_tasks st @ [JString (ustr ''review'')]),
                up_next_agent = Some (JString (ustr ''END'')),
                up_context = Some (AList.update (ustr ''review'')
                  (JObject [(ustr ''approved'', JBool True)]) (context_dict st))\<rparr>"
  using l j key_literals_distinct
  by (simp_all add: planner_logic_def researcher_logic_def coder_logic_def reviewer_logic_def
        obj_get_def Let_def)

lemma context_literals_distinct:
  "ustr ''plan'' \<noteq> ustr ''research''" "ustr ''plan'' \<noteq> ustr ''code''"
  "ustr ''plan'' \<noteq> ustr ''review''" "ustr ''research'' \<noteq> ustr ''code''"
  "ustr ''research'' \<noteq> ustr ''review''" "ustr ''code'' \<noteq> ustr ''review''"
  by (simp_all add: ustr_def)

text \<open>
  Claim C5, with what the code does at the end of the run. When the model's reply at every
  step is the text \<open>approved_text\<close>, which \<^verbatim>\<open>json.loads\<close> reads as the object with the one
  key \<^verbatim>\<open>approved\<close> and the value true, a run goes through planner, researcher, coder and
  reviewer once each, in that order, in four rounds and no fewer, and reaches the state the
  four steps build: the four replies appended, the tasks and the context of each step
  recorded, and END as next step. There \<^verbatim>\<open>route_next\<close> returns the constant
  \<^verbatim>\<open>END\<close>, which is no key of the path map, so the edge raises \<^verbatim>\<open>KeyError\<close> and
  \<^verbatim>\<open>run\<close> returns the dictionary of its \<^verbatim>\<open>except\<close> branch in place of that state.
\<close>

theorem approved_run_single_pass:
  assumes "\<forall>prompt. llm_invoke ev prompt = Inr approved_text"
    and "json_loads ev approved_text = Some (JObject [(ustr ''approved'', JBool True)])"
  shows "(4 \<le> fuel \<longrightarrow>
            run_graph fuel ev (ustr ''planner'') (initial_state user_input) [] =
              Some (Inl (key_error end_constant),
                [ustr ''planner'', ustr ''researcher'', ustr ''coder'', ustr ''reviewer''],
                \<lparr>messages = [HumanMessage user_input, AIMessage approved_text,
                              AIMessage approved_text, AIMessage approved_text,
                              AIMessage approved_text],
                 current_task = JString [],
                 completed_tasks = [JString [], JString [], JString (ustr ''review'')],
                 context_dict =
                   [(ustr ''plan'', JArray []),
                    (ustr ''research'', JObject [(ustr ''approved'', JBool True)]),
                    (ustr ''code'', JObject [(ustr ''approved'', JBool True)]),
                    (ustr ''review'', JObject [(ustr ''approved'', JBool True)])],
                 next_agent = JString (ustr ''END'')\<rparr>) \<and>
            run fuel ev user_input =
              Some (Failed (exn_str (key_error end_constant))
                      [AIMessage (error_prefix @ exn_str (key_error end_constant))],
                    [ustr ''planner'', ustr ''researcher'', ustr ''coder'', ustr ''reviewer''])) \<and>
         (fuel < 4 \<longrightarrow> run fuel ev user_input = None)"
proof -
  note a = approved_steps[OF assms]
  define s0 where "s0 = initial_state user_input"
  obtain u1 where u1: "planner_logic ev s0 = Inr u1"
    "u1 = \<lparr>up_messages = Some (messages s0 @ [AIMessage approved_text]),
                up_current_task = Some (JString []),
                up_completed_tasks = None,
                up_next_agent = Some (JString (ustr ''researcher'')),
                up_context = Some (AList.update (ustr ''plan'') (JArray []) (context_dict s0))\<rparr>"
    using a(1)[of s0] by blast
  define s1 where "s1 = merge_update s0 u1"
  obtain u2 where u2: "researcher_logic ev s1 = Inr u2"
    "u2 = \<lparr>up_messages = Some (messages s1 @ [AIMessage approved_text]),
                up_current_task = None,
                up_completed_tasks = Some (completed_tasks s1 @ [current_task s1]),
                up_next_agent = Some (JString (ustr ''coder'')),
                up_context = Some (AList.update (ustr ''research'')
                  (JObject [(ustr ''approved'', JBool True)]) (context_dict s1))\<rparr>"
    using a(2)[of s1] by blast
  define s2 where "s2 = merge_update s1 u2"
  obtain u3 where u3: "coder_logic ev s2 = Inr u3"
    "u3 = \<lparr>up_messages = Some (messages s2 @ [AIMessage approved_text]),
                up_current_task = None,
                up_completed_tasks = Some (completed_tasks s2 @ [current_task s2]),
                up_next_agent = Some (JString (ustr ''reviewer'')),
                up_context = Some (AList.update (ustr ''code'')
                  (JObject [(ustr ''approved'', JBool True)]) (context_dict s2))\<rparr>"
    using a(3)[of s2] by blast
  define s3 where "s3 = merge_update s2 u3"
  obtain u4 where u4: "reviewer_logic ev s3 = Inr u4"
    "u4 = \<lparr>up_messages = Some (messages s3 @ [AIMessage approved_text]),
                up_current_task = None,
                up_completed_tasks = Some (completed_tasks s3 @ [JString (ustr ''review'')]),
                up_next_agent = Some (JString (ustr ''END'')),
                up_context = Some (AList.update (ustr ''review'')
                  (JObject [(ustr ''approved'', JBool True)]) (context_dict s3))\<rparr>"
    using a(4)[of s3] by blast
  have e1: "s1 = \<lparr>messages = [HumanMessage user_input, AIMessage approved_text],
      current_task = JString [], completed_tasks = [],
      context_dict = [(ustr ''plan'', JArray [])],
      next_agent = JString (ustr ''researcher'')\<rparr>"
    by (simp add: s1_def u1(2) s0_def merge_update_def initial_state_def)
  have e2: "s2 = \<lparr>messages = [HumanMessage user_input, AIMessage approved_text,
        AIMessage approved_text],
      current_task = JString [], completed_tasks = [JString []],
      context_dict = [(ustr ''plan'', JArray []),
        (ustr ''research'', JObject [(ustr ''approved'', JBool True)])],
      next_agent = JString (ustr ''coder'')\<rparr>"
    using context_literals_distinct
    by (simp add: s2_def u2(2) e1 merge_update_def)
  have e3: "s3 = \<lparr>messages = [HumanMessage user_input, AIMessage approved_text,
        AIMessage approved_text, AIMessage approved_text],
      current_task = JString [], completed_tasks = [JString [], JString []],
      context_dict = [(ustr ''plan'', JArray []),
        (ustr ''research'', JObject [(ustr ''approved'', JBool True)]),
        (ustr ''code'', JObject [(ustr ''approved'', JBool True)])],
      next_agent = JString (ustr ''reviewer'')\<rparr>"
    using context_literals_distinct
    by (simp add: s3_def u3(2) e2 merge_update_def)
  have e4: "merge_update s3 u4 =
      \<lparr>messages = [HumanMessage user_input, AIMessage approved_text,
                    AIMessage approved_text, AIMessage approved_text,
                    AIMessage approved_text],
       current_task = JString [],
       completed_tasks = [JString [], JString [], JString (ustr ''review'')],
       context_dict =
         [(ustr ''plan'', JArray []),
          (ustr ''research'', JObject [(ustr ''approved'', JBool True)]),
          (ustr ''code'', JObject [(ustr ''approved'', JBool True)]),
          (ustr ''review'', JObject [(ustr ''approved'', JBool True)])],
       next_agent = JString (ustr ''END'')\<rparr>"
    using context_literals_distinct
    by (simp add: u4(2) e3 merge_update_def)
  have n: "up_next_agent u1 = Some (JString (ustr ''researcher''))"
    "up_next_agent u2 = Some (JString (ustr ''coder''))"
    "up_next_agent u3 = Some (JString (ustr ''reviewer''))"
    "up_next_agent u4 = Some (JString (ustr ''END''))"
    by (simp_all add: u1(2) u2(2) u3(2) u4(2))
  note four = four_rounds[OF u1(1) n(1) u2(1)[unfolded s1_def] n(2)
      u3(1)[unfolded s2_def s1_def] n(3) u4(1)[unfolded s3_def s2_def s1_def] n(4),
      folded s1_def, folded s2_def, folded s3_def, unfolded e4, unfolded s0_def]
  from four run_of_run_graph show ?thesis
    by blast
qed

theorem approved_run_single_pass_witness:
  "run 4 approving_env (ustr ''write a fibonacci function'') =
     Some (Failed ([39] @ ustr ''__end__'' @ [39])
             [AIMessage (error_prefix @ [39] @ ustr ''__end__'' @ [39])],
           [ustr ''planner'', ustr ''researcher'', ustr ''coder'', ustr ''reviewer'']) \<and>
   run 3 approving_env (ustr ''write a fibonacci function'') = None"
proof -
  have 1: "\<forall>prompt. llm_invoke approving_env prompt = Inr approved_text"
    by (simp add: approving_env_def)
  have 2: "json_loads approving_env approved_text = Some (JObject [(ustr ''approved'', JBool True)])"
    by (simp add: approving_env_def approved_object_def)
  note t = approved_run_single_pass[OF 1 2, of _ "ustr ''write a fibonacci function''"]
  from t[of 4] have a: "run 4 approving_env (ustr ''write a fibonacci function'') =
     Some (Failed ([39] @ ustr ''__end__'' @ [39])
             [AIMessage (error_prefix @ [39] @ ustr ''__end__'' @ [39])],
           [ustr ''planner'', ustr ''researcher'', ustr ''coder'', ustr ''reviewer''])"
    by (simp add: key_error_def end_constant_def)
  from t[of 3] have b: "run 3 approving_env (ustr ''write a fibonacci function'') = None"
    by simp
  from a b show ?thesis by (rule conjI)
qed









section \<open>Properties of the integration layer\<close>

lemma wrapper_outcomes:
  assumes "generate_response api vp prompt mdl max_tokens temp hb = Inr r"
  shows "if success r then error r = None \<and> (\<exists>n. tokens_used r = Some n)
         else \<exists>msg. error r = Some msg"
proof (cases "generate_response_try api vp prompt mdl max_tokens temp hb")
  case (Inl e)
  with assms have "r = failure_result mdl e"
    by (auto simp: generate_response_def split: if_splits)
  then show ?thesis
    by (simp add: failure_result_def)
next
  case (Inr r')
  then obtain cfg body where "r' = success_result vp mdl cfg max_tokens temp body"
    by (auto simp: generate_response_try_def Let_def split: option.splits sum.splits)
  then have "success r' \<and> error r' = None \<and> (\<exists>n. tokens_used r' = Some n)"
    by (simp add: success_result_def Let_def)
  moreover from Inr assms have "r = r'"
    by (simp add: generate_response_def)
  ultimately show ?thesis by simp
qed

lemma dify_wrapper_raises:
  assumes "vertex_provider self = Some vp" and "map_of (model_configs self) mdl \<noteq> None"
    and "generate_response api vp (messages_to_prompt msgs) mdl (param_max_tokens params)
           (param_temperature params) True = Inl e"
  shows "dify_generate_response api self mdl msgs params = Inl e"
proof -
  from assms(2) obtain c where "map_of (model_configs self) mdl = Some c"
    by blast
  with assms(1,3) show ?thesis
    by (simp add: dify_generate_response_def Let_def)
qed

lemma dify_after_wrapper:
  assumes "vertex_provider self = Some vp" and "map_of (model_configs self) mdl \<noteq> None"
    and "generate_response api vp (messages_to_prompt msgs) mdl (param_max_tokens params)
           (param_temperature params) True = Inr r"
  shows "error r = Some msg \<Longrightarrow> \<not> success r \<Longrightarrow>
           dify_generate_response api self mdl msgs params =
             Inl (Exn RuntimeError (ustr ''Generation failed: '' @ msg))"
    and "tokens_used r = Some n \<Longrightarrow> success r \<Longrightarrow>
           \<exists>resp. dify_generate_response api self mdl msgs params = Inr resp"
  using assms by (simp_all add: dify_generate_response_def Let_def)

text \<open>
  Claim C10. The integration layer raises where the wrapper returns a failure dictionary:
  \<^verbatim>\<open>RuntimeError\<close> when no provider is initialised, \<^verbatim>\<open>ValueError\<close> when the model is
  not in its table, and \<^verbatim>\<open>RuntimeError\<close> with the wrapper's error text when the wrapper's
  dictionary has success false. It returns exactly when the wrapper succeeds.
\<close>

theorem dify_generate_response_raises:
  "(vertex_provider self = None \<longrightarrow>
      dify_generate_response api self mdl msgs params =
        Inl (Exn RuntimeError (ustr ''Vertex AI provider not initialized''))) \<and>
   (vertex_provider self = Some vp \<and> map_of (model_configs self) mdl = None \<longrightarrow>
      dify_generate_response api self mdl msgs params =
        Inl (Exn ValueError (ustr ''Model '' @ mdl @ ustr '' not supported''))) \<and>
   (vertex_provider self = Some vp \<and> map_of (model_configs self) mdl \<noteq> None \<and>
    generate_response api vp (messages_to_prompt msgs) mdl (param_max_tokens params)
      (param_temperature params) True = Inr r \<and> \<not> success r \<longrightarrow>
      (\<exists>msg. error r = Some msg \<and>
         dify_generate_response api self mdl msgs params =
           Inl (Exn RuntimeError (ustr ''Generation failed: '' @ msg)))) \<and>
   ((\<exists>resp. dify_generate_response api self mdl msgs params = Inr resp) \<longleftrightarrow>
      (\<exists>vp' r'. vertex_provider self = Some vp' \<and> map_of (model_configs self) mdl \<noteq> None \<and>
         generate_response api vp' (messages_to_prompt msgs) mdl (param_max_tokens params)
           (param_temperature params) True = Inr r' \<and> success r'))"
proof (intro conjI impI)
  assume "vertex_provider self = None"
  then show "dify_generate_response api self mdl msgs params =
        Inl (Exn RuntimeError (ustr ''Vertex AI provider not initialized''))"
    by (simp add: dify_generate_response_def)
next
  assume "vertex_provider self = Some vp \<and> map_of (model_configs self) mdl = None"
  then show "dify_generate_response api self mdl msgs params =
        Inl (Exn ValueError (ustr ''Model '' @ mdl @ ustr '' not supported''))"
    by (simp add: dify_generate_response_def)
next
  assume a: "vertex_provider self = Some vp \<and> map_of (model_configs self) mdl \<noteq> None \<and>
    generate_response api vp (messages_to_prompt msgs) mdl (param_max_tokens params)
      (param_temperature params) True = Inr r \<and> \<not> success r"
  then have a1: "vertex_provider self = Some vp" and a2: "map_of (model_configs self) mdl \<noteq> None"
    and a3: "generate_response api vp (messages_to_prompt msgs) mdl (param_max_tokens params)
      (param_temperature params) True = Inr r" and a4: "\<not> success r"
    by simp_all
  from wrapper_outcomes[OF a3] a4
  obtain msg where msg: "error r = Some msg" by auto
  from dify_after_wrapper(1)[OF a1 a2 a3 msg a4] msg
  show "\<exists>msg. error r = Some msg \<and>
         dify_generate_response api self mdl msgs params =
           Inl (Exn RuntimeError (ustr ''Generation failed: '' @ msg))"
    by simp
next
  show "(\<exists>resp. dify_generate_response api self mdl msgs params = Inr resp) \<longleftrightarrow>
      (\<exists>vp' r'. vertex_provider self = Some vp' \<and> map_of (model_configs self) mdl \<noteq> None \<and>
         generate_response api vp' (messages_to_prompt msgs) mdl (param_max_tokens params)
           (param_temperature params) True = Inr r' \<and> success r')"
  proof (cases "vertex_provider self")
    case None
    then show ?thesis by (simp add: dify_generate_response_def)
  next
    case (Some p)
    show ?thesis
    proof (cases "map_of (model_configs self) mdl = None")
      case True
      with Some show ?thesis by (simp add: dify_generate_response_def)
    next
      case False
      show ?thesis
      proof (cases "generate_response api p (messages_to_prompt msgs) mdl
          (param_max_tokens params) (param_temperature params) True")
        case (Inl e)
        from dify_wrapper_raises[OF Some False Inl]
        have "\<not> (\<exists>resp. dify_generate_response api self mdl msgs params = Inr resp)"
          by simp
        moreover have "\<not> (\<exists>vp' r'. vertex_provider self = Some vp' \<and>
            map_of (model_configs self) mdl \<noteq> None \<and>
            generate_response api vp' (messages_to_prompt msgs) mdl (param_max_tokens params)
              (param_temperature params) True = Inr r' \<and> success r')"
          using Some Inl by auto
        ultimately show ?thesis by simp
      next
        case (Inr r0)
        note o = wrapper_outcomes[OF Inr]
        show ?thesis
        proof (cases "success r0")
          case True
          with o obtain n where "tokens_used r0 = Some n" by auto
          from dify_after_wrapper(2)[OF Some False Inr this True]
          have "\<exists>resp. dify_generate_response api self mdl msgs params = Inr resp" .
          moreover have "\<exists>vp' r'. vertex_provider self = Some vp' \<and>
              map_of (model_configs self) mdl \<noteq> None \<and>
              generate_response api vp' (messages_to_prompt msgs) mdl (param_max_tokens params)
                (param_temperature params) True = Inr r' \<and> success r'"
            using Some False Inr True by blast
          ultimately show ?thesis by simp
        next
          case no: False
          with o obtain msg where "error r0 = Some msg" by auto
          from dify_after_wrapper(1)[OF Some False Inr this no]
          have "\<not> (\<exists>resp. dify_generate_response api self mdl msgs params = Inr resp)"
            by simp
          moreover have "\<not> (\<exists>vp' r'. vertex_provider self = Some vp' \<and>
              map_of (model_configs self) mdl \<noteq> None \<and>
              generate_response api vp' (messages_to_prompt msgs) mdl (param_max_tokens params)
                (param_temperature params) True = Inr r' \<and> success r')"
            using Some Inr no by auto
          ultimately show ?thesis by simp
        qed
      qed
    qed
  qed
qed

theorem dify_generate_response_raises_witness:
  "dify_generate_response failing_api new_integration (ustr ''gemini-pro'') []
       \<lparr>par_temperature = None, par_max_tokens = None\<rparr> =
     Inl (Exn RuntimeError (ustr ''Vertex AI provider not initialized'')) \<and>
   dify_generate_response failing_api ready_integration (ustr ''gpt-4'') []
       \<lparr>par_temperature = None, par_max_tokens = None\<rparr> =
     Inl (Exn ValueError (ustr ''Model gpt-4 not supported'')) \<and>
   dify_generate_response failing_api ready_integration (ustr ''gemini-pro'') []
       \<lparr>par_temperature = None, par_max_tokens = None\<rparr> =
     Inl (Exn RuntimeError (ustr ''Generation failed: 403 permission denied''))"
proof -
  let ?vp = "new_provider (ustr ''lionspace'') (ustr ''us-east1'')"
  let ?ps = "\<lparr>par_temperature = None, par_max_tokens = None\<rparr>"
  have np: "vertex_provider new_integration = None"
    by (simp add: new_integration_def)
  have rp: "vertex_provider ready_integration = Some ?vp"
    by (simp add: ready_integration_def)
  have cfg: "map_of (model_configs ready_integration) (ustr ''gpt-4'') = None"
    "map_of (model_configs ready_integration) (ustr ''gemini-pro'') \<noteq> None"
    by (simp_all add: ready_integration_def new_integration_def init_model_configs_def ustr_def)
  have w: "generate_response failing_api ?vp (messages_to_prompt []) (ustr ''gemini-pro'')
      (param_max_tokens ?ps) (param_temperature ?ps) True =
      Inr (failure_result (ustr ''gemini-pro'') (Exn ExternalError (ustr ''403 permission denied'')))"
    using generate_response_registered[OF registry_lookup(1), of failing_api]
    by (simp add: failing_api_def)
  have f: "\<not> success (failure_result (ustr ''gemini-pro'')
      (Exn ExternalError (ustr ''403 permission denied'')))"
    "error (failure_result (ustr ''gemini-pro'')
      (Exn ExternalError (ustr ''403 permission denied''))) = Some (ustr ''403 permission denied'')"
    by (simp_all add: failure_result_def)
  have 1: "dify_generate_response failing_api new_integration (ustr ''gemini-pro'') [] ?ps =
     Inl (Exn RuntimeError (ustr ''Vertex AI provider not initialized''))"
    using dify_generate_response_raises[of new_integration failing_api "ustr ''gemini-pro''" "[]" ?ps] np
    by blast
  have 2: "dify_generate_response failing_api ready_integration (ustr ''gpt-4'') [] ?ps =
     Inl (Exn ValueError (ustr ''Model '' @ ustr ''gpt-4'' @ ustr '' not supported''))"
    using dify_generate_response_raises[of ready_integration failing_api "ustr ''gpt-4''" "[]" ?ps ?vp]
      rp cfg(1)
    by blast
  have 3: "\<exists>msg. error (failure_result (ustr ''gemini-pro'')
      (Exn ExternalError (ustr ''403 permission denied''))) = Some msg \<and>
      dify_generate_response failing_api ready_integration (ustr ''gemini-pro'') [] ?ps =
     Inl (Exn RuntimeError (ustr ''Generation failed: '' @ msg))"
    using dify_generate_response_raises[of ready_integration failing_api "ustr ''gemini-pro''" "[]"
        ?ps ?vp "failure_result (ustr ''gemini-pro'') (Exn ExternalError (ustr ''403 permission denied''))"]
      rp cfg(2) w f(1)
    by blast
  from 3 f(2) have 4: "dify_generate_response failing_api ready_integration (ustr ''gemini-pro'') [] ?ps =
     Inl (Exn RuntimeError (ustr ''Generation failed: '' @ ustr ''403 permission denied''))"
    by auto
  have s2: "ustr ''Model '' @ ustr ''gpt-4'' @ ustr '' not supported'' = ustr ''Model gpt-4 not supported''"
    by (simp add: ustr_def)
  have s3: "ustr ''Generation failed: '' @ ustr ''403 permission denied'' =
      ustr ''Generation failed: 403 permission denied''"
    by (simp add: ustr_def)
  from 1 2 4 show ?thesis
    unfolding s2 s3 by blast
qed

end
